theory Spec2Isabelle
  imports Main "HOL-Library.Sublist" "HOL-Library.AList"
begin

section \<open>Python values used by the extraction engine\<close>

text \<open>
  Exceptions that escape a method are values of \<open>py_error\<close>. A method that mutates the
  parser and may raise returns a pair: what it returned or raised, and the parser as the
  call left it (an exception does not undo the appends made before it).
\<close>

datatype py_error = ValueError | AttributeError | TypeError | KeyError

text \<open>
  The \<open>position\<close> argument of \<open>universal_element_extract\<close>: an int, a tuple
  \<open>(element_index, subelement_index)\<close>, a list of those, or a dict from labels to
  those or to a nested dict \<open>{"pos": ..., "date": ...}\<close> (\<open>Spec\<close>: what
  \<open>spec.get("pos")\<close> and \<open>spec.get("date", None)\<close> give, the latter by its
  truth value). A dict is an association list in insertion order. \<open>Unsupported\<close> is an
  argument of any other type.
\<close>

datatype pos = PInt int | PTuple int int

datatype entry = Plain pos | Spec "pos option" "bool option"

datatype position =
    Single pos
  | PList "pos list"
  | PDict "(string \<times> entry) list"
  | Unsupported

text \<open>
  \<open>failure_reason\<close> is an f-string in the source; the model keeps the template and the
  values it is filled with.
\<close>

datatype reason =
    PositionOutOfRange int string
  | SubpositionOutOfRange int string
  | StrptimeMessage string

record ElementExtractionFailure =
  failure_point :: string
  failure_reason :: reason
  segment :: string
  position :: position
  element :: "string option"
  subposition :: "int option"
  date :: bool
  date_format_in :: string
  date_format_out :: string

text \<open>A value at a leaf position: the extracted text, or the failure put in its place.\<close>

datatype leaf = Val string | Fail ElementExtractionFailure

datatype extracted =
    Leaf leaf
  | LeafList "leaf list"
  | LeafDict "(string \<times> leaf) list"

text \<open>
  \<open>record_start_segment\<close> holds a tuple of codes after \<open>default_segments\<close> and a
  single string after \<open>handle_loop\<close>.
\<close>

datatype seg_code = CodeTuple "string list" | CodeStr string

section \<open>The parser object\<close>

text \<open>
  The attributes of an \<open>EdiBase\<close> instance that the methods below read or write.
  \<open>extraction_errors\<close> is \<open>None\<close> until the first failure creates the list
  (the \<open>hasattr\<close> test). The attributes an \<open>EdiX12\<close> adds are \<open>None\<close> until
  a handler assigns them.
\<close>

record EdiBase =
  language :: string
  element_separator :: string
  subelement_separator :: string
  segment_separator :: string
  record_start_segment :: seg_code
  extraction_errors :: "ElementExtractionFailure list option"

record EdiX12 = EdiBase +
  sender_id :: "leaf option"
  sender_qualifier :: "leaf option"
  receiver_id :: "leaf option"
  receiver_qualifier :: "leaf option"
  transaction_no :: "leaf option"
  edi_version :: "string option"
  date_format :: "string option"
  document_type :: "leaf option"

definition failure_log :: "'a EdiBase_scheme \<Rightarrow> ElementExtractionFailure list" where
  "failure_log p = (case extraction_errors p of None \<Rightarrow> [] | Some errs \<Rightarrow> errs)"

definition handle_extraction_error ::
  "'a EdiBase_scheme \<Rightarrow> ElementExtractionFailure \<Rightarrow> ElementExtractionFailure \<times> 'a EdiBase_scheme" where
  "handle_extraction_error p err =
     (err, p\<lparr>extraction_errors := Some (failure_log p @ [err])\<rparr>)"

section \<open>String splitting and list indexing\<close>

text \<open>
  \<open>str.split(sep)\<close>: the pieces between the leftmost non-overlapping occurrences of
  \<open>sep\<close>; an empty separator raises \<open>ValueError\<close>. \<open>cur\<close> is the piece being
  read, reversed.
\<close>

function split_scan :: "string \<Rightarrow> string \<Rightarrow> string \<Rightarrow> string list" where
  "split_scan sep cur [] = [rev cur]"
| "split_scan sep cur (c # cs) =
     (if sep \<noteq> [] \<and> prefix sep (c # cs)
      then rev cur # split_scan sep [] (drop (length sep) (c # cs))
      else split_scan sep (c # cur) cs)"
  by pat_completeness auto
termination
  by (relation "measure (\<lambda>(sep, cur, s). length s)") (auto simp: neq_Nil_conv)

definition split_py :: "string \<Rightarrow> string \<Rightarrow> py_error + string list" where
  "split_py s sep = (if sep = [] then Inl ValueError else Inr (split_scan sep [] s))"

text \<open>\<open>xs[i]\<close>: a negative index counts from the end; \<open>None\<close> is \<open>IndexError\<close>.\<close>

definition py_index :: "'a list \<Rightarrow> int \<Rightarrow> 'a option" where
  "py_index xs i =
     (if 0 \<le> i \<and> i < int (length xs) then Some (xs ! nat i)
      else if i < 0 \<and> - i \<le> int (length xs) then Some (xs ! nat (int (length xs) + i))
      else None)"

section \<open>The element extractor\<close>

text \<open>
  \<open>datetime.strptime(element, date_format_in).strftime(date_format_out)\<close> belongs to
  Python's library; the extractor takes it as the parameter \<open>rf\<close>: \<open>Inr\<close> the
  reformatted text, \<open>Inl\<close> the message of the exception that the \<open>except\<close>
  clause catches.
\<close>

type_synonym reformat = "string \<Rightarrow> string \<Rightarrow> string \<Rightarrow> string + string"

text \<open>
  The three calls of the constructor \<open>ElementExtractionFailure(...)\<close>, each with the
  keyword arguments the source passes and the defaults of the others
  (\<open>element=None\<close>, \<open>subposition=None\<close>, \<open>date=False\<close>,
  \<open>date_format_in='%Y%m%d'\<close>, \<open>date_format_out='%m-%d-%Y'\<close>). The first is
  given \<open>position=pos\<close>, the element index; the other two \<open>position=position\<close>,
  the argument of \<open>universal_element_extract\<close>.
\<close>

definition element_index_failure :: "string \<Rightarrow> int \<Rightarrow> ElementExtractionFailure" where
  "element_index_failure seg pos =
     \<lparr>failure_point = ''Element Index'',
      failure_reason = PositionOutOfRange pos seg,
      segment = seg,
      position = Single (PInt pos),
      element = None,
      subposition = None,
      date = False,
      date_format_in = ''%Y%m%d'',
      date_format_out = ''%m-%d-%Y''\<rparr>"

definition subelement_index_failure ::
  "string \<Rightarrow> position \<Rightarrow> string \<Rightarrow> int \<Rightarrow> ElementExtractionFailure" where
  "subelement_index_failure seg posn el subpos =
     \<lparr>failure_point = ''Subelement Index'',
      failure_reason = SubpositionOutOfRange subpos el,
      segment = seg,
      position = posn,
      element = Some el,
      subposition = Some subpos,
      date = False,
      date_format_in = ''%Y%m%d'',
      date_format_out = ''%m-%d-%Y''\<rparr>"

definition date_conversion_failure ::
  "string \<Rightarrow> string \<Rightarrow> position \<Rightarrow> string \<Rightarrow> int option \<Rightarrow> string \<Rightarrow> string \<Rightarrow>
   ElementExtractionFailure" where
  "date_conversion_failure msg seg posn el subpos fin fout =
     \<lparr>failure_point = ''Date conversion'',
      failure_reason = StrptimeMessage msg,
      segment = seg,
      position = posn,
      element = Some el,
      subposition = subpos,
      date = False,
      date_format_in = fin,
      date_format_out = fout\<rparr>"

text \<open>
  The tail of \<open>extract_one\<close> (\<open>if date:\<close> to \<open>return element\<close>). A text that
  does not parse is a failure only under \<open>single_date or force_date\<close>; otherwise the
  unparsed element is returned.
\<close>

definition date_convert ::
  "reformat \<Rightarrow> 'a EdiBase_scheme \<Rightarrow> string \<Rightarrow> position \<Rightarrow> bool \<Rightarrow> string \<Rightarrow> string \<Rightarrow>
   bool \<Rightarrow> int option \<Rightarrow> bool option \<Rightarrow> string \<Rightarrow> (py_error + leaf) \<times> 'a EdiBase_scheme" where
  "date_convert rf p seg posn dt fin fout single_date subpos force_date el =
     (if dt then
        (case rf el fin fout of
           Inr formatted \<Rightarrow> (Inr (Val formatted), p)
         | Inl msg \<Rightarrow>
             if single_date \<or> force_date = Some True then
               (case handle_extraction_error p
                  (date_conversion_failure msg seg posn el subpos fin fout)
                of (err, p') \<Rightarrow> (Inr (Fail err), p'))
             else (Inr (Val el), p))
      else (Inr (Val el), p))"

text \<open>
  \<open>extract_one(pos, force_date)\<close>, a closure over the arguments of
  \<open>universal_element_extract\<close> and over \<open>single_date\<close>. \<open>posarg = None\<close> is
  a dict entry without \<open>"pos"\<close>: indexing the split list with \<open>None\<close> raises
  \<open>TypeError\<close>. The warnings are not modelled.
\<close>

definition extract_one ::
  "reformat \<Rightarrow> 'a EdiBase_scheme \<Rightarrow> string \<Rightarrow> position \<Rightarrow> bool \<Rightarrow> string \<Rightarrow> string \<Rightarrow>
   bool \<Rightarrow> pos option \<Rightarrow> bool option \<Rightarrow> (py_error + leaf) \<times> 'a EdiBase_scheme" where
  "extract_one rf p seg posn dt fin fout single_date posarg force_date =
     (case split_py seg (element_separator p) of
        Inl e \<Rightarrow> (Inl e, p)
      | Inr elems \<Rightarrow>
          (case posarg of
             None \<Rightarrow> (Inl TypeError, p)
           | Some pp \<Rightarrow>
               let pos = (case pp of PInt i \<Rightarrow> i | PTuple i j \<Rightarrow> i);
                   subpos = (case pp of PInt i \<Rightarrow> None | PTuple i j \<Rightarrow> Some j)
               in
               (case py_index elems pos of
                  None \<Rightarrow>
                    (case handle_extraction_error p (element_index_failure seg pos)
                     of (err, p') \<Rightarrow> (Inr (Fail err), p'))
                | Some el \<Rightarrow>
                    (case subpos of
                       None \<Rightarrow>
                         date_convert rf p seg posn dt fin fout single_date subpos force_date el
                     | Some sp \<Rightarrow>
                         (case split_py el (subelement_separator p) of
                            Inl e \<Rightarrow> (Inl e, p)
                          | Inr subs \<Rightarrow>
                              (case py_index subs sp of
                                 None \<Rightarrow>
                                   (case handle_extraction_error p
                                      (subelement_index_failure seg posn el sp)
                                    of (err, p') \<Rightarrow> (Inr (Fail err), p'))
                               | Some sub \<Rightarrow>
                                   date_convert rf p seg posn dt fin fout single_date
                                     subpos force_date sub))))))"

text \<open>The list comprehension \<open>[extract_one(p) for p in position]\<close>.\<close>

fun extract_list ::
  "reformat \<Rightarrow> 'a EdiBase_scheme \<Rightarrow> string \<Rightarrow> position \<Rightarrow> bool \<Rightarrow> string \<Rightarrow> string \<Rightarrow>
   bool \<Rightarrow> pos list \<Rightarrow> (py_error + leaf list) \<times> 'a EdiBase_scheme" where
  "extract_list rf p seg posn dt fin fout single_date [] = (Inr [], p)"
| "extract_list rf p seg posn dt fin fout single_date (x # xs) =
     (case extract_one rf p seg posn dt fin fout single_date (Some x) None of
        (Inl e, p') \<Rightarrow> (Inl e, p')
      | (Inr v, p') \<Rightarrow>
          (case extract_list rf p' seg posn dt fin fout single_date xs of
             (Inl e, p'') \<Rightarrow> (Inl e, p'')
           | (Inr vs, p'') \<Rightarrow> (Inr (v # vs), p'')))"

text \<open>
  The loop over \<open>position.items()\<close>; \<open>result[key] = ...\<close> is \<open>AList.update\<close>
  (a new key goes to the end).
\<close>

fun extract_dict ::
  "reformat \<Rightarrow> 'a EdiBase_scheme \<Rightarrow> string \<Rightarrow> position \<Rightarrow> bool \<Rightarrow> string \<Rightarrow> string \<Rightarrow>
   bool \<Rightarrow> (string \<times> leaf) list \<Rightarrow> (string \<times> entry) list \<Rightarrow>
   (py_error + (string \<times> leaf) list) \<times> 'a EdiBase_scheme" where
  "extract_dict rf p seg posn dt fin fout single_date result [] = (Inr result, p)"
| "extract_dict rf p seg posn dt fin fout single_date result ((key, spec) # rest) =
     (let pos = (case spec of Spec pos_opt date_opt \<Rightarrow> pos_opt | Plain pp \<Rightarrow> Some pp);
          force_date = (case spec of Spec pos_opt date_opt \<Rightarrow> date_opt | Plain pp \<Rightarrow> None)
      in
      (case extract_one rf p seg posn dt fin fout single_date pos force_date of
         (Inl e, p') \<Rightarrow> (Inl e, p')
       | (Inr v, p') \<Rightarrow>
           extract_dict rf p' seg posn dt fin fout single_date
             (AList.update key v result) rest))"

definition universal_element_extract ::
  "reformat \<Rightarrow> 'a EdiBase_scheme \<Rightarrow> string \<Rightarrow> position \<Rightarrow> bool \<Rightarrow> string \<Rightarrow> string \<Rightarrow>
   (py_error + extracted) \<times> 'a EdiBase_scheme" where
  "universal_element_extract rf p seg posn dt fin fout =
     (let single_date = (case posn of Single (PInt i) \<Rightarrow> True | _ \<Rightarrow> False) in
      (case posn of
         Single pp \<Rightarrow>
           (case extract_one rf p seg posn dt fin fout single_date (Some pp) None of
              (Inl e, p') \<Rightarrow> (Inl e, p')
            | (Inr v, p') \<Rightarrow> (Inr (Leaf v), p'))
       | PList ps \<Rightarrow>
           (case extract_list rf p seg posn dt fin fout single_date ps of
              (Inl e, p') \<Rightarrow> (Inl e, p')
            | (Inr vs, p') \<Rightarrow> (Inr (LeafList vs), p'))
       | PDict kvs \<Rightarrow>
           (case extract_dict rf p seg posn dt fin fout single_date [] kvs of
              (Inl e, p') \<Rightarrow> (Inl e, p')
            | (Inr result, p') \<Rightarrow> (Inr (LeafDict result), p'))
       | Unsupported \<Rightarrow> (Inl TypeError, p)))"

text \<open>The defaults of the keyword arguments \<open>date_format_in\<close> and \<open>date_format_out\<close>.\<close>

definition default_format_in :: string where
  "default_format_in = ''%Y%m%d''"

definition default_format_out :: string where
  "default_format_out = ''%m-%d-%Y''"

section \<open>Construction\<close>

definition VALID_LANGUAGES :: "string set" where
  "VALID_LANGUAGES = {''X12'', ''EDIFACT''}"

definition DEFAULT_SEPARATORS :: "(string \<times> (string \<times> string) list) list" where
  "DEFAULT_SEPARATORS =
     [(''X12'', [(''ELEMENT'', ''*''), (''SEGMENT'', ''~''), (''SUBELEMENT'', ''<'')]),
      (''EDIFACT'', [(''ELEMENT'', ''+''), (''SEGMENT'', [CHR 0x27]), (''SUBELEMENT'', '':'')])]"

definition EDI_SEGMENTS :: "(string \<times> (string \<times> string list) list) list" where
  "EDI_SEGMENTS =
     [(''X12'',
        [(''ENVELOPE'', [''ISA'']), (''INNER_MESSAGE'', [''GS'']), (''RECORD_START'', [''BFR'']),
         (''ADDRESS'', [''N1'']), (''LOOP'', [''ST'']), (''CLAIM_DETAILS'', [''N9'']),
         (''PART_DETAILS'', [''LIN'']), (''DATE_DETAILS'', [''DTM'']),
         (''SERVICE_LINE_DETAILS'', [''SSS'']), (''PROBLEM_RECORD_DETAILS'', [''PRR'']),
         (''MESSAGE'', [''MSG'']), (''TOTAL_CHARGE'', [''AMT'']), (''ACCUM'', [''SHP'', ''ATH'']),
         (''RELEASE'', [''FST'']), (''RELEASE_TYPE'', [''SDP'']), (''QUANTITY'', [''QTY'']),
         (''REFERENCE'', [''REF'']), (''FILE_END'', [''SE''])]),
      (''EDIFACT'',
        [(''ENVELOPE'', [''UNB'']), (''INNER_MESSAGE'', []), (''RECORD_START'', [''UNH'']),
         (''ADDRESS'', [''NAD'']), (''LOOP'', [''BGM'']), (''CLAIM_DETAILS'', []),
         (''PART_DETAILS'', [''LIN'']), (''DATE_DETAILS'', [''DTM'']),
         (''SERVICE_LINE_DETAILS'', []), (''PROBLEM_RECORD_DETAILS'', []),
         (''MESSAGE'', [''MSG'']), (''TOTAL_CHARGE'', []), (''ACCUM'', [[]]),
         (''RELEASE'', [[]]), (''RELEASE_TYPE'', [''SCC'']), (''QUANTITY'', [''QTY'']),
         (''REFERENCE'', [''REF'']), (''FILE_END'', [''UNT''])])]"

text \<open>\<open>table[k1][k2]\<close>; a missing key raises \<open>KeyError\<close>.\<close>

definition lookup2 :: "('a \<times> ('b \<times> 'c) list) list \<Rightarrow> 'a \<Rightarrow> 'b \<Rightarrow> py_error + 'c" where
  "lookup2 table k1 k2 =
     (case map_of table k1 of
        None \<Rightarrow> Inl KeyError
      | Some inner \<Rightarrow> (case map_of inner k2 of None \<Rightarrow> Inl KeyError | Some v \<Rightarrow> Inr v))"

text \<open>The truth value of an argument \<open>str = None\<close>: \<open>None\<close> and \<open>""\<close> are false.\<close>

definition truthy :: "string option \<Rightarrow> bool" where
  "truthy a = (a \<noteq> None \<and> a \<noteq> Some [])"

text \<open>
  \<open>EdiBase.__init__\<close>, called without further keyword attributes. The parameter
  \<open>decode\<close> is \<open>s.encode().decode('unicode_escape')\<close>, which can raise. An instance
  attribute is \<open>None\<close> while it has not been assigned: each of the three \<open>if not\<close>
  statements assigns the separator attribute only when the argument is false, and the
  three lines after them read the attribute. Of \<open>default_segments\<close> the model keeps
  \<open>record_start_segment\<close>; \<open>DISPATCH_MAP\<close> is read by no method of the source.
\<close>

definition EdiBase_init ::
  "(string \<Rightarrow> py_error + string) \<Rightarrow> string \<Rightarrow> string option \<Rightarrow> string option \<Rightarrow> string option \<Rightarrow>
   py_error + EdiBase" where
  "EdiBase_init decode lang element_sep subelement_sep segment_sep =
     (if lang \<notin> VALID_LANGUAGES then Inl ValueError
      else
        (case (if \<not> truthy element_sep
               then map_sum id Some (lookup2 DEFAULT_SEPARATORS lang ''ELEMENT'')
               else Inr None) of
           Inl e \<Rightarrow> Inl e
         | Inr attr_element \<Rightarrow>
        (case (if \<not> truthy subelement_sep
               then map_sum id Some (lookup2 DEFAULT_SEPARATORS lang ''SUBELEMENT'')
               else Inr None) of
           Inl e \<Rightarrow> Inl e
         | Inr attr_subelement \<Rightarrow>
        (case (if \<not> truthy segment_sep
               then map_sum id Some (lookup2 DEFAULT_SEPARATORS lang ''SEGMENT'')
               else Inr None) of
           Inl e \<Rightarrow> Inl e
         | Inr attr_segment \<Rightarrow>
        (case attr_element of
           None \<Rightarrow> Inl AttributeError
         | Some es \<Rightarrow>
        (case decode es of
           Inl e \<Rightarrow> Inl e
         | Inr es' \<Rightarrow>
        (case attr_subelement of
           None \<Rightarrow> Inl AttributeError
         | Some ss \<Rightarrow>
        (case decode ss of
           Inl e \<Rightarrow> Inl e
         | Inr ss' \<Rightarrow>
        (case attr_segment of
           None \<Rightarrow> Inl AttributeError
         | Some gs \<Rightarrow>
        (case decode gs of
           Inl e \<Rightarrow> Inl e
         | Inr gs' \<Rightarrow>
        (case lookup2 EDI_SEGMENTS lang ''RECORD_START'' of
           Inl e \<Rightarrow> Inl e
         | Inr start \<Rightarrow>
             Inr \<lparr>language = lang,
                  element_separator = es',
                  subelement_separator = ss',
                  segment_separator = gs',
                  record_start_segment = CodeTuple start,
                  extraction_errors = None\<rparr>)))))))))))"

text \<open>
  \<open>EdiBase\<close> is an \<open>ABC\<close> with nine abstract handlers. Creating an instance of a
  subclass raises \<open>TypeError\<close>, before \<open>__init__\<close> runs, while the subclass leaves
  one of them undefined; \<open>abstractmethods\<close> is what is left.
\<close>

definition EdiBase_abstract_methods :: "string list" where
  "EdiBase_abstract_methods =
     [''handle_envelope'', ''handle_inner'', ''handle_loop'', ''handle_start'',
      ''handle_address'', ''handle_part'', ''handle_release'', ''handle_accum'',
      ''handle_end'']"

definition EdiX12_methods :: "string list" where
  "EdiX12_methods =
     [''__init__'', ''handle_envelope'', ''handle_inner'', ''handle_loop'', ''handle_start'',
      ''handle_address'', ''handle_accum'']"

definition abstractmethods :: "string list \<Rightarrow> string list \<Rightarrow> string list" where
  "abstractmethods inherited defined = filter (\<lambda>m. m \<notin> set defined) inherited"

text \<open>\<open>EdiX12(element_separator, subelement_separator, segment_separator)\<close>.\<close>

definition EdiX12_new ::
  "(string \<Rightarrow> py_error + string) \<Rightarrow> string option \<Rightarrow> string option \<Rightarrow> string option \<Rightarrow>
   py_error + EdiX12" where
  "EdiX12_new decode element_sep subelement_sep segment_sep =
     (if abstractmethods EdiBase_abstract_methods EdiX12_methods \<noteq> [] then Inl TypeError
      else
        (case EdiBase_init decode ''X12'' element_sep subelement_sep segment_sep of
           Inl e \<Rightarrow> Inl e
         | Inr base \<Rightarrow>
             Inr (EdiBase.extend base
                    \<lparr>sender_id = None, sender_qualifier = None, receiver_id = None,
                     receiver_qualifier = None, transaction_no = None,
                     edi_version = None, date_format = None, document_type = None\<rparr>)))"

section \<open>Documents, parts and the traversal state\<close>

text \<open>
  An attribute that holds what an extraction returned is a \<open>leaf\<close>; \<open>None\<close> is
  Python's \<open>None\<close>, or an attribute not assigned yet. \<open>release_date\<close> is the
  attribute \<open>date\<close> of a release and \<open>release_language\<close> its
  \<open>__language__\<close>.
\<close>

record X12ReleaseDetails =
  release_language :: string
  release_date :: leaf
  quantity :: leaf
  rel_type :: "string option"
  rel_timing :: "string option"

record EdiPart =
  part_no :: leaf
  revision :: "leaf option"
  part_rev :: string
  release_list :: "X12ReleaseDetails list"
  po :: "leaf option"
  address :: "leaf option"
  total_accum :: "leaf option"
  total_accum_start_date :: "leaf option"
  total_accum_end_date :: "leaf option"
  plant :: "leaf option"
  last_received_ship_quantity :: "leaf option"
  last_received_ship_date :: "leaf option"

text \<open>
  Part objects are shared: \<open>state["part_record"]\<close> and the \<open>part_list\<close> of a
  document can hold the same object, and the handlers assign its attributes in place. Parts
  therefore live in a store from references to objects (\<open>part_objects\<close>, below);
  \<open>part_list\<close> and \<open>part_record\<close> hold references, so that an assignment
  through one is seen through the other.
\<close>

type_synonym part_ref = nat

record EdiDocument =
  ref_no :: leaf
  part_list :: "part_ref list"
  document_issue_date :: "leaf option"
  horizon_start_date :: "leaf option"
  horizon_end_date :: "leaf option"

text \<open>
  The \<open>state\<close> dict that every handler receives, with the five keys the handlers
  read: \<open>"edi_class"\<close>, \<open>"edi_class_list"\<close>, \<open>"document_issue_date"\<close>,
  \<open>"address"\<close> and \<open>"part_record"\<close>, and with the store of the part objects
  that the state and its documents refer to.
\<close>

record state =
  edi_class :: "EdiDocument option"
  edi_class_list :: "EdiDocument list"
  state_document_issue_date :: "leaf option"
  state_address :: "leaf option"
  part_record :: "part_ref option"
  part_objects :: "part_ref \<Rightarrow> EdiPart"

text \<open>\<open>EdiDocument(ref_no)\<close>.\<close>

definition EdiDocument_init :: "leaf \<Rightarrow> EdiDocument" where
  "EdiDocument_init r =
     \<lparr>ref_no = r, part_list = [], document_issue_date = None,
      horizon_start_date = None, horizon_end_date = None\<rparr>"

section \<open>The X12 handlers\<close>

definition DATE_FORMATS :: "(string \<times> string) list" where
  "DATE_FORMATS =
     [(''0020'', ''%y%m%d''), (''0030'', ''%y%m%d''), (''0040'', ''%Y%m%d''),
      (''0050'', ''%Y%m%d''), (''0060'', ''%Y%m%d'')]"

definition START_SEGMENTS :: "(string \<times> string) list" where
  "START_SEGMENTS =
     [(''861'', ''BRA''), (''810'', ''BIG''), (''824'', ''BGN''), (''997'', ''AK1''),
      (''856'', ''BSN''), (''822'', ''BGN''), (''862'', ''BSS''), (''142'', ''BGN''),
      (''853'', ''BGN''), (''830'', ''BFR''), (''850'', ''BEG''), (''855'', ''BAK''),
      (''860'', ''BCH''), (''864'', ''BMG''), (''820'', ''TRN''), (''832'', ''BCT'')]"

text \<open>
  A handler returns what it raised (or \<open>Inr ()\<close>), the parser and the state as it left
  them. A single position always yields a \<open>Leaf\<close> and a list of two positions a
  \<open>LeafList\<close> of two; the last branch of such a case is never taken.
\<close>

definition handle_envelope ::
  "reformat \<Rightarrow> EdiX12 \<Rightarrow> string \<Rightarrow> state \<Rightarrow> (py_error + unit) \<times> EdiX12 \<times> state" where
  "handle_envelope rf p seg st =
     (case universal_element_extract rf p seg (Single (PInt 6)) False default_format_in default_format_out of
        (Inl e, p1) \<Rightarrow> (Inl e, p1, st)
      | (Inr (Leaf v1), p1) \<Rightarrow>
     (case universal_element_extract rf (p1\<lparr>sender_id := Some v1\<rparr>) seg (Single (PInt 5)) False default_format_in default_format_out of
        (Inl e, p2) \<Rightarrow> (Inl e, p2, st)
      | (Inr (Leaf v2), p2) \<Rightarrow>
     (case universal_element_extract rf (p2\<lparr>sender_qualifier := Some v2\<rparr>) seg (Single (PInt 8)) False default_format_in default_format_out of
        (Inl e, p3) \<Rightarrow> (Inl e, p3, st)
      | (Inr (Leaf v3), p3) \<Rightarrow>
     (case universal_element_extract rf (p3\<lparr>receiver_id := Some v3\<rparr>) seg (Single (PInt 7)) False default_format_in default_format_out of
        (Inl e, p4) \<Rightarrow> (Inl e, p4, st)
      | (Inr (Leaf v4), p4) \<Rightarrow>
     (case universal_element_extract rf (p4\<lparr>receiver_qualifier := Some v4\<rparr>) seg (Single (PInt 13)) False default_format_in default_format_out of
        (Inl e, p5) \<Rightarrow> (Inl e, p5, st)
      | (Inr (Leaf v5), p5) \<Rightarrow> (Inr (), p5\<lparr>transaction_no := Some v5\<rparr>, st)
      | (Inr _, p5) \<Rightarrow> (Inl TypeError, p5, st))
      | (Inr _, p4) \<Rightarrow> (Inl TypeError, p4, st))
      | (Inr _, p3) \<Rightarrow> (Inl TypeError, p3, st))
      | (Inr _, p2) \<Rightarrow> (Inl TypeError, p2, st))
      | (Inr _, p1) \<Rightarrow> (Inl TypeError, p1, st))"

text \<open>
  \<open>handle_inner\<close>. Slicing \<open>[:4]\<close> a failure object raises \<open>TypeError\<close>:
  the class defines no \<open>__getitem__\<close>.
\<close>

definition handle_inner ::
  "reformat \<Rightarrow> EdiX12 \<Rightarrow> string \<Rightarrow> state \<Rightarrow> (py_error + unit) \<times> EdiX12 \<times> state" where
  "handle_inner rf p seg st =
     (case universal_element_extract rf p seg (Single (PInt 8)) False default_format_in default_format_out of
        (Inl e, p1) \<Rightarrow> (Inl e, p1, st)
      | (Inr (Leaf (Val v)), p1) \<Rightarrow>
          let p2 = p1\<lparr>edi_version := Some (take 4 v)\<rparr>;
              fmt = (case map_of DATE_FORMATS (take 4 v) of Some f \<Rightarrow> f | None \<Rightarrow> ''%Y%m%d'');
              p3 = p2\<lparr>date_format := Some fmt\<rparr>
          in
          (case universal_element_extract rf p3 seg (Single (PInt 4)) True fmt default_format_out of
             (Inl e, p4) \<Rightarrow> (Inl e, p4, st)
           | (Inr (Leaf d), p4) \<Rightarrow> (Inr (), p4, st\<lparr>state_document_issue_date := Some d\<rparr>)
           | (Inr _, p4) \<Rightarrow> (Inl TypeError, p4, st))
      | (Inr _, p1) \<Rightarrow> (Inl TypeError, p1, st))"

text \<open>
  \<open>handle_loop\<close>. \<open>START_SEGMENTS[self.document_type]\<close> raises \<open>KeyError\<close>
  for a type that is not in the table, and for a failure object.
\<close>

definition handle_loop ::
  "reformat \<Rightarrow> EdiX12 \<Rightarrow> string \<Rightarrow> state \<Rightarrow> (py_error + unit) \<times> EdiX12 \<times> state" where
  "handle_loop rf p seg st =
     (case universal_element_extract rf p seg (Single (PInt 1)) False default_format_in default_format_out of
        (Inl e, p1) \<Rightarrow> (Inl e, p1, st)
      | (Inr (Leaf v), p1) \<Rightarrow>
          let p2 = p1\<lparr>document_type := Some v\<rparr> in
          (case v of
             Val t \<Rightarrow>
               (case map_of START_SEGMENTS t of
                  None \<Rightarrow> (Inl KeyError, p2, st)
                | Some code \<Rightarrow> (Inr (), p2\<lparr>record_start_segment := CodeStr code\<rparr>, st))
           | Fail f \<Rightarrow> (Inl KeyError, p2, st))
      | (Inr _, p1) \<Rightarrow> (Inl TypeError, p1, st))"

definition GROUP_3 :: "string list" where
  "GROUP_3 = [''BFR'', ''BEG'', ''BAK'', ''BCH'']"

definition GROUP_2 :: "string list" where
  "GROUP_2 = [''BSN'', ''BSS'', ''BGN'', ''AK1'', ''TRN'']"

definition GROUP_1 :: "string list" where
  "GROUP_1 = [''BRA'', ''BIG'']"

text \<open>
  \<open>self.record_start_segment in GROUP\<close>: a tuple of codes equals none of the strings
  of a group.
\<close>

definition in_group :: "seg_code \<Rightarrow> string list \<Rightarrow> bool" where
  "in_group c g = (case c of CodeStr s \<Rightarrow> s \<in> set g | CodeTuple t \<Rightarrow> False)"

definition record_no_index :: "seg_code \<Rightarrow> int" where
  "record_no_index c =
     (if in_group c GROUP_3 then 3
      else if in_group c GROUP_2 then 2
      else if in_group c GROUP_1 then 1
      else 0)"

text \<open>
  \<open>handle_start\<close>. \<open>self.date_format\<close> is read after the open document has been
  archived, and raises \<open>AttributeError\<close> when \<open>handle_inner\<close> has not set it.
\<close>

definition handle_start ::
  "reformat \<Rightarrow> EdiX12 \<Rightarrow> string \<Rightarrow> state \<Rightarrow> (py_error + unit) \<times> EdiX12 \<times> state" where
  "handle_start rf p seg st =
     (case universal_element_extract rf p seg
             (Single (PInt (record_no_index (record_start_segment p))))
             False default_format_in default_format_out of
        (Inl e, p1) \<Rightarrow> (Inl e, p1, st)
      | (Inr (Leaf record_no), p1) \<Rightarrow>
          let st1 = (case edi_class st of
                       Some open_doc \<Rightarrow>
                         st\<lparr>edi_class_list := edi_class_list st @ [open_doc], edi_class := None\<rparr>
                     | None \<Rightarrow> st);
              doc = (EdiDocument_init record_no)
                      \<lparr>document_issue_date := state_document_issue_date st1\<rparr>
          in
          (case date_format p1 of
             None \<Rightarrow> (Inl AttributeError, p1, st1)
           | Some fmt \<Rightarrow>
               (case universal_element_extract rf p1 seg (PList [PInt 6, PInt 7]) True fmt
                       default_format_out of
                  (Inl e, p2) \<Rightarrow> (Inl e, p2, st1)
                | (Inr (LeafList [a, b]), p2) \<Rightarrow>
                    (Inr (), p2,
                     st1\<lparr>edi_class :=
                           Some (doc\<lparr>horizon_start_date := Some a, horizon_end_date := Some b\<rparr>)\<rparr>)
                | (Inr _, p2) \<Rightarrow> (Inl ValueError, p2, st1)))
      | (Inr _, p1) \<Rightarrow> (Inl TypeError, p1, st))"

text \<open>
  The truth value of \<open>state["address"]\<close>: \<open>None\<close> and the empty string are false,
  a failure object is true.
\<close>

definition truthy_leaf :: "leaf option \<Rightarrow> bool" where
  "truthy_leaf v = (case v of None \<Rightarrow> False | Some (Val s) \<Rightarrow> s \<noteq> [] | Some (Fail f) \<Rightarrow> True)"

definition handle_address ::
  "reformat \<Rightarrow> EdiX12 \<Rightarrow> string \<Rightarrow> state \<Rightarrow> (py_error + unit) \<times> EdiX12 \<times> state" where
  "handle_address rf p seg st =
     (case universal_element_extract rf p seg (Single (PInt 1)) False default_format_in default_format_out of
        (Inl e, p1) \<Rightarrow> (Inl e, p1, st)
      | (Inr address_type, p1) \<Rightarrow>
          (case (if address_type = Leaf (Val ''ST'')
                 then (case universal_element_extract rf p1 seg (Single (PInt 4)) False
                              default_format_in default_format_out of
                         (Inl e, p2) \<Rightarrow> (Inl e, p2, st)
                       | (Inr (Leaf a), p2) \<Rightarrow> (Inr (), p2, st\<lparr>state_address := Some a\<rparr>)
                       | (Inr _, p2) \<Rightarrow> (Inl TypeError, p2, st))
                 else (Inr (), p1, st)) of
             (Inl e, p2, st2) \<Rightarrow> (Inl e, p2, st2)
           | (Inr u, p2, st2) \<Rightarrow>
               (case part_record st2 of
                  Some r \<Rightarrow>
                    if truthy_leaf (state_address st2)
                    then (Inr (), p2,
                          st2\<lparr>part_objects :=
                                (part_objects st2)
                                  (r := (part_objects st2 r)\<lparr>plant := state_address st2\<rparr>)\<rparr>)
                    else (Inr (), p2, st2)
                | None \<Rightarrow> (Inr (), p2, st2))))"

text \<open>
  \<open>handle_accum\<close>. Every branch asks for a list of positions with \<open>date=True\<close>
  and passes no \<open>date_format_in\<close>, so the input format is the default of the keyword
  argument, whatever \<open>self.date_format\<close> holds. The attributes are assigned on the
  part object that \<open>state["part_record"]\<close> refers to.
\<close>

definition handle_accum ::
  "reformat \<Rightarrow> EdiX12 \<Rightarrow> string \<Rightarrow> state \<Rightarrow> (py_error + unit) \<times> EdiX12 \<times> state" where
  "handle_accum rf p seg st =
     (case universal_element_extract rf p seg (Single (PInt 1)) False default_format_in default_format_out of
        (Inl e, p1) \<Rightarrow> (Inl e, p1, st)
      | (Inr accum_type, p1) \<Rightarrow>
          (case part_record st of
             None \<Rightarrow> (Inr (), p1, st)
           | Some r \<Rightarrow>
               if accum_type = Leaf (Val ''01'') then
                 (case universal_element_extract rf p1 seg (PList [PInt 2, PInt 4]) True
                         default_format_in default_format_out of
                    (Inl e, p2) \<Rightarrow> (Inl e, p2, st)
                  | (Inr (LeafList [q, d]), p2) \<Rightarrow>
                      (Inr (), p2,
                       st\<lparr>part_objects :=
                            (part_objects st)
                              (r := (part_objects st r)
                                      \<lparr>last_received_ship_quantity := Some q,
                                       last_received_ship_date := Some d\<rparr>)\<rparr>)
                  | (Inr _, p2) \<Rightarrow> (Inl ValueError, p2, st))
               else if accum_type = Leaf (Val ''02'') then
                 (case universal_element_extract rf p1 seg (PList [PInt 2, PInt 4, PInt 6]) True
                         default_format_in default_format_out of
                    (Inl e, p2) \<Rightarrow> (Inl e, p2, st)
                  | (Inr (LeafList [a, s, e]), p2) \<Rightarrow>
                      (Inr (), p2,
                       st\<lparr>part_objects :=
                            (part_objects st)
                              (r := (part_objects st r)
                                      \<lparr>total_accum := Some a,
                                       total_accum_start_date := Some s,
                                       total_accum_end_date := Some e\<rparr>)\<rparr>)
                  | (Inr _, p2) \<Rightarrow> (Inl ValueError, p2, st))
               else if accum_type = Leaf (Val ''PQ'') then
                 (case universal_element_extract rf p1 seg (PList [PInt 3, PInt 5, PInt 2]) True
                         default_format_in default_format_out of
                    (Inl e, p2) \<Rightarrow> (Inl e, p2, st)
                  | (Inr (LeafList [a, s, e]), p2) \<Rightarrow>
                      (Inr (), p2,
                       st\<lparr>part_objects :=
                            (part_objects st)
                              (r := (part_objects st r)
                                      \<lparr>total_accum := Some a,
                                       total_accum_start_date := Some s,
                                       total_accum_end_date := Some e\<rparr>)\<rparr>)
                  | (Inr _, p2) \<Rightarrow> (Inl ValueError, p2, st))
               else (Inr (), p1, st)))"

text \<open>
  A date converter for the evaluations below. It agrees with \<open>strptime\<close> and
  \<open>strftime\<close> on the texts they use: \<open>20250115\<close> read with \<open>%Y%m%d\<close> and
  written with \<open>%m-%d-%Y\<close> is \<open>01-15-2025\<close>, \<open>251031\<close> read with
  \<open>%y%m%d\<close> is \<open>10-31-2025\<close>, and \<open>notadate\<close>, \<open>100\<close>,
  \<open>850\<close> and \<open>0001\<close> do not parse under \<open>%Y%m%d\<close> (none holds a
  four-digit year followed by a month and a day).
\<close>

definition sample_reformat :: reformat where
  "sample_reformat el fin fout =
     (if el = ''20250115'' \<and> fin = ''%Y%m%d'' \<and> fout = ''%m-%d-%Y'' then Inr ''01-15-2025''
      else if el = ''251031'' \<and> fin = ''%y%m%d'' \<and> fout = ''%m-%d-%Y'' then Inr ''10-31-2025''
      else Inl ''time data does not match format'')"

text \<open>An X12 parser with the default separators, before any handler has run.\<close>

definition x12_parser :: EdiX12 where
  "x12_parser =
     \<lparr>language = ''X12'', element_separator = ''*'', subelement_separator = ''<'',
      segment_separator = ''~'', record_start_segment = CodeTuple [''BFR''],
      extraction_errors = None,
      sender_id = None, sender_qualifier = None, receiver_id = None,
      receiver_qualifier = None, transaction_no = None,
      edi_version = None, date_format = None, document_type = None\<rparr>"

section \<open>Notions used to state the properties\<close>

text \<open>The failures a leaf value carries, and a parser with failures appended to its log.\<close>

definition leaf_failures :: "leaf \<Rightarrow> ElementExtractionFailure list" where
  "leaf_failures l = (case l of Val v \<Rightarrow> [] | Fail f \<Rightarrow> [f])"

definition logged :: "'a EdiBase_scheme \<Rightarrow> ElementExtractionFailure list \<Rightarrow> 'a EdiBase_scheme" where
  "logged p fs = (if fs = [] then p else p\<lparr>extraction_errors := Some (failure_log p @ fs)\<rparr>)"

text \<open>The failures at the leaves of a returned value, in the order of the leaves.\<close>

definition failures_of :: "extracted \<Rightarrow> ElementExtractionFailure list" where
  "failures_of v =
     (case v of
        Leaf l \<Rightarrow> leaf_failures l
      | LeafList ls \<Rightarrow> concat (map leaf_failures ls)
      | LeafDict kvs \<Rightarrow> concat (map (\<lambda>(k, l). leaf_failures l) kvs))"

text \<open>
  A \<open>position\<close> that a call can pass: the keys of a dict are distinct.
\<close>

definition well_formed :: "position \<Rightarrow> bool" where
  "well_formed posn = (case posn of PDict kvs \<Rightarrow> distinct (map fst kvs) | _ \<Rightarrow> True)"

text \<open>
  What a request for element \<open>i\<close> alone, without the date option, puts at its leaf
  (\<open>plain_leaf\<close>), and what a list request with the date option puts at the leaf of
  an int position (\<open>lenient_leaf\<close>: the reformatted text when the element parses,
  the element itself when it does not).
\<close>

definition plain_leaf :: "string \<Rightarrow> string list \<Rightarrow> int \<Rightarrow> leaf" where
  "plain_leaf seg elems i =
     (case py_index elems i of
        None \<Rightarrow> Fail (element_index_failure seg i)
      | Some el \<Rightarrow> Val el)"

definition lenient_leaf :: "reformat \<Rightarrow> string \<Rightarrow> string list \<Rightarrow> string \<Rightarrow> string \<Rightarrow> int \<Rightarrow> leaf" where
  "lenient_leaf rf seg elems fin fout i =
     (case py_index elems i of
        None \<Rightarrow> Fail (element_index_failure seg i)
      | Some el \<Rightarrow> (case rf el fin fout of Inr t \<Rightarrow> Val t | Inl msg \<Rightarrow> Val el))"

text \<open>The state after \<open>handle_start\<close> has put an open document on the completed list.\<close>

definition archived :: "state \<Rightarrow> state" where
  "archived st =
     (case edi_class st of
        Some open_doc \<Rightarrow> st\<lparr>edi_class_list := edi_class_list st @ [open_doc], edi_class := None\<rparr>
      | None \<Rightarrow> st)"

text \<open>
  A part, a document that holds it and a traversal state with both open, for the
  evaluations: reference 0 is the open part, in the document's \<open>part_list\<close> and in
  \<open>part_record\<close>.
\<close>

definition sample_part :: EdiPart where
  "sample_part =
     \<lparr>part_no = Val ''P100'', revision = None, part_rev = ''P100-None'', release_list = [],
      po = None, address = None, total_accum = None, total_accum_start_date = None,
      total_accum_end_date = None, plant = None, last_received_ship_quantity = None,
      last_received_ship_date = None\<rparr>"

definition sample_document :: EdiDocument where
  "sample_document =
     \<lparr>ref_no = Val ''0001'', part_list = [0], document_issue_date = None,
      horizon_start_date = None, horizon_end_date = None\<rparr>"

definition sample_state :: state where
  "sample_state =
     \<lparr>edi_class = Some sample_document, edi_class_list = [], state_document_issue_date = None,
      state_address = None, part_record = Some 0, part_objects = (\<lambda>r. sample_part)\<rparr>"

text \<open>
  What \<open>extract_one\<close> returns or raises for one position (\<open>leaf_at\<close>), the
  position and the date override of a dict entry, and the returned value read against the
  request: the leaf of a single position, the leaves of a list index by index, the leaves of
  a dict label by label, each being what \<open>extract_one\<close> gives for that position.
\<close>

definition leaf_at ::
  "reformat \<Rightarrow> 'a EdiBase_scheme \<Rightarrow> string \<Rightarrow> position \<Rightarrow> bool \<Rightarrow> string \<Rightarrow> string \<Rightarrow>
   bool \<Rightarrow> pos option \<Rightarrow> bool option \<Rightarrow> py_error + leaf" where
  "leaf_at rf p seg posn dt fin fout single_date posarg force_date =
     fst (extract_one rf p seg posn dt fin fout single_date posarg force_date)"

definition entry_pos :: "entry \<Rightarrow> pos option" where
  "entry_pos spec = (case spec of Spec pos_opt date_opt \<Rightarrow> pos_opt | Plain pp \<Rightarrow> Some pp)"

definition entry_force :: "entry \<Rightarrow> bool option" where
  "entry_force spec = (case spec of Spec pos_opt date_opt \<Rightarrow> date_opt | Plain pp \<Rightarrow> None)"

definition leaves_match ::
  "reformat \<Rightarrow> 'a EdiBase_scheme \<Rightarrow> string \<Rightarrow> position \<Rightarrow> bool \<Rightarrow> string \<Rightarrow> string \<Rightarrow>
   extracted \<Rightarrow> bool" where
  "leaves_match rf p seg posn dt fin fout v =
     (case (posn, v) of
        (Single pp, Leaf l) \<Rightarrow>
          leaf_at rf p seg posn dt fin fout (case pp of PInt i \<Rightarrow> True | PTuple i j \<Rightarrow> False)
            (Some pp) None = Inr l
      | (PList ps, LeafList vs) \<Rightarrow>
          map (\<lambda>x. leaf_at rf p seg posn dt fin fout False (Some x) None) ps = map Inr vs
      | (PDict kvs, LeafDict res) \<Rightarrow>
          map (\<lambda>(k, spec). (k, leaf_at rf p seg posn dt fin fout False
                                 (entry_pos spec) (entry_force spec))) kvs =
          map (\<lambda>(k, l). (k, Inr l)) res
      | _ \<Rightarrow> False)"

section \<open>Properties of the element extractor\<close>

lemma py_index_beyond: "int (length xs) \<le> i \<Longrightarrow> py_index xs i = None"
  by (simp add: py_index_def)

lemma py_index_negative:
  "i < 0 \<Longrightarrow> - i \<le> int (length xs) \<Longrightarrow> py_index xs i = Some (xs ! nat (int (length xs) + i))"
  by (simp add: py_index_def)

lemma logged_Nil [simp]: "logged p [] = p"
  by (simp add: logged_def)

lemma failure_log_logged [simp]: "failure_log (logged p fs) = failure_log p @ fs"
  by (simp add: logged_def failure_log_def)

lemma logged_logged [simp]: "logged (logged p fs) gs = logged p (fs @ gs)"
  by (simp add: logged_def failure_log_def)

lemma element_separator_logged [simp]: "element_separator (logged p fs) = element_separator p"
  by (simp add: logged_def)

lemma subelement_separator_logged [simp]: "subelement_separator (logged p fs) = subelement_separator p"
  by (simp add: logged_def)

lemma leaf_failures_simps [simp]: "leaf_failures (Val v) = []" "leaf_failures (Fail f) = [f]"
  by (simp_all add: leaf_failures_def)

lemma handle_extraction_error_logged: "handle_extraction_error p f = (f, logged p [f])"
  by (simp add: handle_extraction_error_def logged_def)

lemma date_convert_off: "date_convert rf p seg posn False fin fout sd sp fd el = (Inr (Val el), p)"
  by (simp add: date_convert_def)

lemma date_convert_parsed:
  "rf el fin fout = Inr t \<Longrightarrow> date_convert rf p seg posn True fin fout sd sp fd el = (Inr (Val t), p)"
  by (simp add: date_convert_def)

lemma date_convert_strict:
  "rf el fin fout = Inl msg \<Longrightarrow> sd \<or> fd = Some True \<Longrightarrow>
   date_convert rf p seg posn True fin fout sd sp fd el =
     (Inr (Fail (date_conversion_failure msg seg posn el sp fin fout)),
      logged p [date_conversion_failure msg seg posn el sp fin fout])"
  by (simp add: date_convert_def handle_extraction_error_logged)

lemma date_convert_lenient:
  "rf el fin fout = Inl msg \<Longrightarrow> \<not> sd \<Longrightarrow> fd \<noteq> Some True \<Longrightarrow>
   date_convert rf p seg posn True fin fout sd sp fd el = (Inr (Val el), p)"
  by (simp add: date_convert_def)

lemma date_convert_logged:
  "\<exists>l. date_convert rf p seg posn dt fin fout sd sp fd el = (Inr l, logged p (leaf_failures l))"
proof (cases dt)
  case False
  then show ?thesis by (simp add: date_convert_off)
next
  case True
  show ?thesis
  proof (cases "rf el fin fout")
    case (Inr t)
    then show ?thesis using True by (simp add: date_convert_parsed)
  next
    case (Inl msg)
    show ?thesis
    proof (cases "sd \<or> fd = Some True")
      case strict: True
      show ?thesis
        using Inl strict True by (simp add: date_convert_strict)
    next
      case False
      then show ?thesis using Inl True by (simp add: date_convert_lenient)
    qed
  qed
qed

lemma extract_one_split_error:
  "split_py seg (element_separator p) = Inl e \<Longrightarrow>
   extract_one rf p seg posn dt fin fout sd pa fd = (Inl e, p)"
  by (simp add: extract_one_def)

lemma extract_one_no_pos:
  "split_py seg (element_separator p) = Inr elems \<Longrightarrow>
   extract_one rf p seg posn dt fin fout sd None fd = (Inl TypeError, p)"
  by (simp add: extract_one_def)

lemma extract_one_int_missing:
  "split_py seg (element_separator p) = Inr elems \<Longrightarrow> py_index elems i = None \<Longrightarrow>
   extract_one rf p seg posn dt fin fout sd (Some (PInt i)) fd =
     (Inr (Fail (element_index_failure seg i)), logged p [element_index_failure seg i])"
  by (simp add: extract_one_def handle_extraction_error_logged)

lemma extract_one_tuple_missing:
  "split_py seg (element_separator p) = Inr elems \<Longrightarrow> py_index elems i = None \<Longrightarrow>
   extract_one rf p seg posn dt fin fout sd (Some (PTuple i j)) fd =
     (Inr (Fail (element_index_failure seg i)), logged p [element_index_failure seg i])"
  by (simp add: extract_one_def handle_extraction_error_logged)

lemma extract_one_int:
  "split_py seg (element_separator p) = Inr elems \<Longrightarrow> py_index elems i = Some el \<Longrightarrow>
   extract_one rf p seg posn dt fin fout sd (Some (PInt i)) fd =
     date_convert rf p seg posn dt fin fout sd None fd el"
  by (simp add: extract_one_def)

lemma extract_one_tuple_split_error:
  "split_py seg (element_separator p) = Inr elems \<Longrightarrow> py_index elems i = Some el \<Longrightarrow>
   split_py el (subelement_separator p) = Inl e \<Longrightarrow>
   extract_one rf p seg posn dt fin fout sd (Some (PTuple i j)) fd = (Inl e, p)"
  by (simp add: extract_one_def)

lemma extract_one_sub_missing:
  "split_py seg (element_separator p) = Inr elems \<Longrightarrow> py_index elems i = Some el \<Longrightarrow>
   split_py el (subelement_separator p) = Inr subs \<Longrightarrow> py_index subs j = None \<Longrightarrow>
   extract_one rf p seg posn dt fin fout sd (Some (PTuple i j)) fd =
     (Inr (Fail (subelement_index_failure seg posn el j)),
      logged p [subelement_index_failure seg posn el j])"
  by (simp add: extract_one_def handle_extraction_error_logged)

lemma extract_one_tuple:
  "split_py seg (element_separator p) = Inr elems \<Longrightarrow> py_index elems i = Some el \<Longrightarrow>
   split_py el (subelement_separator p) = Inr subs \<Longrightarrow> py_index subs j = Some sub \<Longrightarrow>
   extract_one rf p seg posn dt fin fout sd (Some (PTuple i j)) fd =
     date_convert rf p seg posn dt fin fout sd (Some j) fd sub"
  by (simp add: extract_one_def)

lemma extract_one_logged:
  "(\<exists>e. extract_one rf p seg posn dt fin fout sd pa fd = (Inl e, p)) \<or>
   (\<exists>l. extract_one rf p seg posn dt fin fout sd pa fd = (Inr l, logged p (leaf_failures l)))"
proof (cases "split_py seg (element_separator p)")
  case (Inl e)
  then show ?thesis by (simp add: extract_one_split_error)
next
  case split: (Inr elems)
  show ?thesis
  proof (cases pa)
    case None
    then show ?thesis by (simp add: extract_one_no_pos [OF split])
  next
    case (Some pp)
    show ?thesis
    proof (cases pp)
      case (PInt i)
      show ?thesis
      proof (cases "py_index elems i")
        case None
        then show ?thesis
          using Some PInt extract_one_int_missing [OF split None] by simp
      next
        case el: (Some el)
        show ?thesis
          using date_convert_logged [of rf p seg posn dt fin fout sd None fd el]
          by (simp add: Some PInt extract_one_int [OF split el])
      qed
    next
      case (PTuple i j)
      show ?thesis
      proof (cases "py_index elems i")
        case None
        then show ?thesis
          using Some PTuple extract_one_tuple_missing [OF split None] by simp
      next
        case el: (Some el)
        show ?thesis
        proof (cases "split_py el (subelement_separator p)")
          case (Inl e)
          then show ?thesis
            by (simp add: Some PTuple extract_one_tuple_split_error [OF split el])
        next
          case subs: (Inr subs)
          show ?thesis
          proof (cases "py_index subs j")
            case None
            then show ?thesis
              using Some PTuple extract_one_sub_missing [OF split el subs None] by simp
          next
            case sub: (Some sub)
            show ?thesis
              using date_convert_logged [of rf p seg posn dt fin fout sd "Some j" fd sub]
              by (simp add: Some PTuple extract_one_tuple [OF split el subs sub])
          qed
        qed
      qed
    qed
  qed
qed

lemma uee_int:
  "universal_element_extract rf p seg (Single (PInt i)) dt fin fout =
     (case extract_one rf p seg (Single (PInt i)) dt fin fout True (Some (PInt i)) None of
        (Inl e, p') \<Rightarrow> (Inl e, p')
      | (Inr v, p') \<Rightarrow> (Inr (Leaf v), p'))"
  by (simp add: universal_element_extract_def)

lemma uee_tuple:
  "universal_element_extract rf p seg (Single (PTuple i j)) dt fin fout =
     (case extract_one rf p seg (Single (PTuple i j)) dt fin fout False (Some (PTuple i j)) None of
        (Inl e, p') \<Rightarrow> (Inl e, p')
      | (Inr v, p') \<Rightarrow> (Inr (Leaf v), p'))"
  by (simp add: universal_element_extract_def)

lemma uee_list:
  "universal_element_extract rf p seg (PList ps) dt fin fout =
     (case extract_list rf p seg (PList ps) dt fin fout False ps of
        (Inl e, p') \<Rightarrow> (Inl e, p')
      | (Inr vs, p') \<Rightarrow> (Inr (LeafList vs), p'))"
  by (simp add: universal_element_extract_def)

lemma uee_dict:
  "universal_element_extract rf p seg (PDict kvs) dt fin fout =
     (case extract_dict rf p seg (PDict kvs) dt fin fout False [] kvs of
        (Inl e, p') \<Rightarrow> (Inl e, p')
      | (Inr result, p') \<Rightarrow> (Inr (LeafDict result), p'))"
  by (simp add: universal_element_extract_def)

lemma uee_int_missing:
  "split_py seg (element_separator p) = Inr elems \<Longrightarrow> py_index elems i = None \<Longrightarrow>
   universal_element_extract rf p seg (Single (PInt i)) dt fin fout =
     (Inr (Leaf (Fail (element_index_failure seg i))), logged p [element_index_failure seg i])"
  by (simp add: uee_int extract_one_int_missing)

lemma uee_tuple_missing:
  "split_py seg (element_separator p) = Inr elems \<Longrightarrow> py_index elems i = None \<Longrightarrow>
   universal_element_extract rf p seg (Single (PTuple i j)) dt fin fout =
     (Inr (Leaf (Fail (element_index_failure seg i))), logged p [element_index_failure seg i])"
  by (simp add: uee_tuple extract_one_tuple_missing)

lemma uee_int_plain:
  "split_py seg (element_separator p) = Inr elems \<Longrightarrow> py_index elems i = Some el \<Longrightarrow>
   universal_element_extract rf p seg (Single (PInt i)) False fin fout = (Inr (Leaf (Val el)), p)"
  by (simp add: uee_int extract_one_int date_convert_off)

lemma element_index_failure_fields:
  "failure_point (element_index_failure seg i) = ''Element Index''"
  "segment (element_index_failure seg i) = seg"
  "position (element_index_failure seg i) = Single (PInt i)"
  by (simp_all add: element_index_failure_def)

lemma date_convert_not_index:
  "\<exists>l. date_convert rf p seg posn dt fin fout sd sp fd el = (Inr l, logged p (leaf_failures l)) \<and>
       (\<forall>f. l = Fail f \<longrightarrow> failure_point f = ''Date conversion'')"
proof (cases "dt \<and> (\<exists>msg. rf el fin fout = Inl msg) \<and> (sd \<or> fd = Some True)")
  case True
  then obtain msg where "rf el fin fout = Inl msg" by blast
  with True show ?thesis
    by (simp add: date_convert_strict date_conversion_failure_def)
next
  case False
  then have "date_convert rf p seg posn dt fin fout sd sp fd el = (Inr (Val el), p)
      \<or> (\<exists>t. date_convert rf p seg posn dt fin fout sd sp fd el = (Inr (Val t), p))"
    by (cases "rf el fin fout") (auto simp: date_convert_def)
  then show ?thesis by auto
qed

lemma extract_list_logged:
  "extract_list rf p seg posn dt fin fout sd ps = (r, p') \<Longrightarrow>
     (\<exists>fs. p' = logged p fs) \<and>
     (\<forall>vs. r = Inr vs \<longrightarrow> p' = logged p (concat (map leaf_failures vs)) \<and> length vs = length ps)"
proof (induction ps arbitrary: p r p')
  case Nil
  then show ?case by (auto intro: exI [of _ "[]"])
next
  case (Cons x xs)
  from extract_one_logged [of rf p seg posn dt fin fout sd "Some x" None]
  show ?case
  proof
    assume "\<exists>e. extract_one rf p seg posn dt fin fout sd (Some x) None = (Inl e, p)"
    then obtain e where "extract_one rf p seg posn dt fin fout sd (Some x) None = (Inl e, p)" ..
    with Cons.prems have "r = Inl e" "p' = p" by simp_all
    then show ?thesis by (auto intro: exI [of _ "[]"])
  next
    assume "\<exists>l. extract_one rf p seg posn dt fin fout sd (Some x) None =
                  (Inr l, logged p (leaf_failures l))"
    then obtain l where one: "extract_one rf p seg posn dt fin fout sd (Some x) None =
                  (Inr l, logged p (leaf_failures l))" ..
    obtain r2 p2 where rest: "extract_list rf (logged p (leaf_failures l)) seg posn dt fin fout sd xs
                  = (r2, p2)" by (cases "extract_list rf (logged p (leaf_failures l)) seg posn dt fin fout sd xs")
    from Cons.IH [OF rest] obtain fs where
      fs: "p2 = logged (logged p (leaf_failures l)) fs" and
      ok: "\<forall>vs. r2 = Inr vs \<longrightarrow>
             p2 = logged (logged p (leaf_failures l)) (concat (map leaf_failures vs))
             \<and> length vs = length xs"
      by blast
    show ?thesis
    proof (cases r2)
      case (Inl e)
      with Cons.prems one rest have "r = Inl e" "p' = p2" by simp_all
      with fs show ?thesis by auto
    next
      case (Inr vs)
      with Cons.prems one rest have "r = Inr (l # vs)" "p' = p2" by simp_all
      with ok Inr show ?thesis by auto
    qed
  qed
qed

lemma update_fresh: "k \<notin> fst ` set al \<Longrightarrow> AList.update k v al = al @ [(k, v)]"
  by (induction al) auto

lemma extract_dict_logged:
  "extract_dict rf p seg posn dt fin fout sd acc kvs = (r, p') \<Longrightarrow>
   distinct (map fst kvs) \<Longrightarrow> fst ` set kvs \<inter> fst ` set acc = {} \<Longrightarrow>
     (\<exists>fs. p' = logged p fs) \<and>
     (\<forall>res. r = Inr res \<longrightarrow>
        (\<exists>new. res = acc @ new \<and> map fst new = map fst kvs
               \<and> p' = logged p (concat (map (\<lambda>(k, l). leaf_failures l) new))))"
proof (induction kvs arbitrary: p acc r p')
  case Nil
  then show ?case by (auto intro: exI [of _ "[]"])
next
  case (Cons kv kvs)
  obtain key spec where kv: "kv = (key, spec)" by (cases kv)
  define pa where "pa = (case spec of Spec pos_opt date_opt \<Rightarrow> pos_opt | Plain pp \<Rightarrow> Some pp)"
  define fd where "fd = (case spec of Spec pos_opt date_opt \<Rightarrow> date_opt | Plain pp \<Rightarrow> None)"
  have step: "extract_dict rf p seg posn dt fin fout sd acc (kv # kvs) =
      (case extract_one rf p seg posn dt fin fout sd pa fd of
         (Inl e, p') \<Rightarrow> (Inl e, p')
       | (Inr v, p') \<Rightarrow>
           extract_dict rf p' seg posn dt fin fout sd (AList.update key v acc) kvs)"
    by (simp add: kv pa_def fd_def Let_def)
  have fresh: "key \<notin> fst ` set acc"
    using Cons.prems(3) kv by auto
  from extract_one_logged [of rf p seg posn dt fin fout sd pa fd]
  show ?case
  proof
    assume "\<exists>e. extract_one rf p seg posn dt fin fout sd pa fd = (Inl e, p)"
    then obtain e where "extract_one rf p seg posn dt fin fout sd pa fd = (Inl e, p)" ..
    with Cons.prems(1) step have "r = Inl e" "p' = p" by simp_all
    then show ?thesis by (auto intro: exI [of _ "[]"])
  next
    assume "\<exists>l. extract_one rf p seg posn dt fin fout sd pa fd =
                  (Inr l, logged p (leaf_failures l))"
    then obtain l where one: "extract_one rf p seg posn dt fin fout sd pa fd =
                  (Inr l, logged p (leaf_failures l))" ..
    have upd: "AList.update key l acc = acc @ [(key, l)]"
      using fresh by (rule update_fresh)
    have rest: "extract_dict rf (logged p (leaf_failures l)) seg posn dt fin fout sd
                  (acc @ [(key, l)]) kvs = (r, p')"
      using Cons.prems(1) step one upd by simp
    have d: "distinct (map fst kvs)" using Cons.prems(2) by simp
    have disj: "fst ` set kvs \<inter> fst ` set (acc @ [(key, l)]) = {}"
      using Cons.prems(2,3) kv by auto
    from Cons.IH [OF rest d disj] obtain fs where
      fs: "p' = logged (logged p (leaf_failures l)) fs" and
      ok: "\<forall>res. r = Inr res \<longrightarrow>
        (\<exists>new. res = (acc @ [(key, l)]) @ new \<and> map fst new = map fst kvs
               \<and> p' = logged (logged p (leaf_failures l))
                        (concat (map (\<lambda>(k, l). leaf_failures l) new)))"
      by blast
    have "\<exists>new. res = acc @ new \<and> map fst new = map fst (kv # kvs)
               \<and> p' = logged p (concat (map (\<lambda>(k, l). leaf_failures l) new))"
      if "r = Inr res" for res
    proof -
      from ok that obtain new where
        new: "res = (acc @ [(key, l)]) @ new" "map fst new = map fst kvs"
          "p' = logged (logged p (leaf_failures l)) (concat (map (\<lambda>(k, l). leaf_failures l) new))"
        by blast
      then have "res = acc @ ((key, l) # new) \<and> map fst ((key, l) # new) = map fst (kv # kvs)
               \<and> p' = logged p (concat (map (\<lambda>(k, l). leaf_failures l) ((key, l) # new)))"
        by (simp add: kv)
      then show ?thesis by blast
    qed
    with fs show ?thesis by auto
  qed
qed

lemma uee_single_logged:
  "universal_element_extract rf p seg (Single pp) dt fin fout = (r, p') \<Longrightarrow>
     (\<exists>fs. p' = logged p fs) \<and> (\<forall>v. r = Inr v \<longrightarrow> p' = logged p (failures_of v))"
proof -
  assume a: "universal_element_extract rf p seg (Single pp) dt fin fout = (r, p')"
  define sd where "sd = (case pp of PInt i \<Rightarrow> True | PTuple i j \<Rightarrow> False)"
  have eq: "universal_element_extract rf p seg (Single pp) dt fin fout =
     (case extract_one rf p seg (Single pp) dt fin fout sd (Some pp) None of
        (Inl e, p') \<Rightarrow> (Inl e, p')
      | (Inr v, p') \<Rightarrow> (Inr (Leaf v), p'))"
    by (cases pp) (simp_all add: sd_def uee_int uee_tuple)
  from extract_one_logged [of rf p seg "Single pp" dt fin fout sd "Some pp" None]
  show ?thesis
  proof
    assume "\<exists>e. extract_one rf p seg (Single pp) dt fin fout sd (Some pp) None = (Inl e, p)"
    then obtain e where "extract_one rf p seg (Single pp) dt fin fout sd (Some pp) None = (Inl e, p)" ..
    with a eq have "r = Inl e" "p' = p" by simp_all
    then show ?thesis by (auto intro: exI [of _ "[]"])
  next
    assume "\<exists>l. extract_one rf p seg (Single pp) dt fin fout sd (Some pp) None =
                  (Inr l, logged p (leaf_failures l))"
    then obtain l where "extract_one rf p seg (Single pp) dt fin fout sd (Some pp) None =
                  (Inr l, logged p (leaf_failures l))" ..
    with a eq have "r = Inr (Leaf l)" "p' = logged p (leaf_failures l)" by simp_all
    then show ?thesis by (auto simp: failures_of_def)
  qed
qed

lemma uee_list_logged:
  assumes a: "universal_element_extract rf p seg (PList ps) dt fin fout = (r, p')"
  shows "(\<exists>fs. p' = logged p fs) \<and> (\<forall>v. r = Inr v \<longrightarrow> p' = logged p (failures_of v))"
proof -
  obtain r2 p2 where l: "extract_list rf p seg (PList ps) dt fin fout False ps = (r2, p2)"
    by (cases "extract_list rf p seg (PList ps) dt fin fout False ps")
  note facts = extract_list_logged [OF l]
  show ?thesis
  proof (cases r2)
    case (Inl e)
    with a l have "r = Inl e" "p' = p2" by (simp_all add: uee_list)
    with facts show ?thesis by auto
  next
    case (Inr vs)
    with a l have "r = Inr (LeafList vs)" "p' = p2" by (simp_all add: uee_list)
    with facts Inr show ?thesis by (auto simp: failures_of_def)
  qed
qed

lemma uee_dict_logged:
  assumes a: "universal_element_extract rf p seg (PDict kvs) dt fin fout = (r, p')"
      and d: "distinct (map fst kvs)"
  shows "(\<exists>fs. p' = logged p fs) \<and> (\<forall>v. r = Inr v \<longrightarrow> p' = logged p (failures_of v))"
proof -
  obtain r2 p2 where l: "extract_dict rf p seg (PDict kvs) dt fin fout False [] kvs = (r2, p2)"
    by (cases "extract_dict rf p seg (PDict kvs) dt fin fout False [] kvs")
  have "fst ` set kvs \<inter> fst ` set [] = {}" by simp
  note facts = extract_dict_logged [OF l d this]
  show ?thesis
  proof (cases r2)
    case (Inl e)
    with a l have "r = Inl e" "p' = p2" by (simp_all add: uee_dict)
    with facts show ?thesis by auto
  next
    case (Inr res)
    with a l have "r = Inr (LeafDict res)" "p' = p2" by (simp_all add: uee_dict)
    with facts Inr show ?thesis by (auto simp: failures_of_def)
  qed
qed

lemma default_separator_lookup:
  "lang \<in> VALID_LANGUAGES \<Longrightarrow> \<exists>d. lookup2 DEFAULT_SEPARATORS lang ''ELEMENT'' = Inr d"
  "lang \<in> VALID_LANGUAGES \<Longrightarrow> \<exists>d. lookup2 DEFAULT_SEPARATORS lang ''SUBELEMENT'' = Inr d"
  "lang \<in> VALID_LANGUAGES \<Longrightarrow> \<exists>d. lookup2 DEFAULT_SEPARATORS lang ''SEGMENT'' = Inr d"
  by (auto simp: VALID_LANGUAGES_def lookup2_def DEFAULT_SEPARATORS_def)

lemma override_never_constructs:
  assumes "truthy element_sep \<or> truthy subelement_sep \<or> truthy segment_sep"
  shows "EdiBase_init decode lang element_sep subelement_sep segment_sep \<noteq> Inr q"
proof (cases "lang \<in> VALID_LANGUAGES")
  case False
  then show ?thesis by (simp add: EdiBase_init_def)
next
  case True
  from default_separator_lookup [OF True] obtain de ds dg where
    d: "lookup2 DEFAULT_SEPARATORS lang ''ELEMENT'' = Inr de"
       "lookup2 DEFAULT_SEPARATORS lang ''SUBELEMENT'' = Inr ds"
       "lookup2 DEFAULT_SEPARATORS lang ''SEGMENT'' = Inr dg"
    by blast
  show ?thesis
    using assms True d
    by (auto simp: EdiBase_init_def split: sum.splits option.splits)
qed

lemma int_date_failure:
  assumes "split_py seg (element_separator p) = Inr elems"
      and "py_index elems i = Some el"
      and "rf el fin fout = Inl msg"
  shows "universal_element_extract rf p seg (Single (PInt i)) True fin fout =
           (Inr (Leaf (Fail (date_conversion_failure msg seg (Single (PInt i)) el None fin fout))),
            logged p [date_conversion_failure msg seg (Single (PInt i)) el None fin fout])"
  using assms(3)
  by (simp add: uee_int extract_one_int [OF assms(1,2)] date_convert_strict)

lemma tuple_date_failure_swallowed:
  assumes "split_py seg (element_separator p) = Inr elems"
      and "py_index elems i = Some el"
      and "split_py el (subelement_separator p) = Inr subs"
      and "py_index subs j = Some sub"
      and "rf sub fin fout = Inl msg"
  shows "universal_element_extract rf p seg (Single (PTuple i j)) True fin fout =
           (Inr (Leaf (Val sub)), p)"
  using assms(5)
  by (simp add: uee_tuple extract_one_tuple [OF assms(1-4)] date_convert_lenient)

lemma fst_date_convert:
  "fst (date_convert rf q seg posn dt fin fout sd sp fd el) =
   fst (date_convert rf p seg posn dt fin fout sd sp fd el)"
  by (simp add: date_convert_def handle_extraction_error_def split: sum.splits)

lemma leaf_at_same_separators:
  assumes e: "element_separator q = element_separator p"
      and s: "subelement_separator q = subelement_separator p"
  shows "leaf_at rf q seg posn dt fin fout sd pa fd = leaf_at rf p seg posn dt fin fout sd pa fd"
proof (cases "split_py seg (element_separator p)")
  case (Inl err)
  then have "split_py seg (element_separator q) = Inl err" using e by simp
  with Inl show ?thesis by (simp add: leaf_at_def extract_one_split_error)
next
  case split: (Inr elems)
  then have splitq: "split_py seg (element_separator q) = Inr elems" using e by simp
  show ?thesis
  proof (cases pa)
    case None
    then show ?thesis
      by (simp add: leaf_at_def extract_one_no_pos [OF split] extract_one_no_pos [OF splitq])
  next
    case (Some pp)
    show ?thesis
    proof (cases pp)
      case (PInt i)
      show ?thesis
      proof (cases "py_index elems i")
        case None
        then show ?thesis
          by (simp add: leaf_at_def Some PInt extract_one_int_missing [OF split None]
              extract_one_int_missing [OF splitq None])
      next
        case el: (Some el)
        show ?thesis
          by (simp add: leaf_at_def Some PInt extract_one_int [OF split el]
              extract_one_int [OF splitq el] fst_date_convert [of rf q _ _ _ _ _ _ _ _ _ p])
      qed
    next
      case (PTuple i j)
      show ?thesis
      proof (cases "py_index elems i")
        case None
        then show ?thesis
          by (simp add: leaf_at_def Some PTuple extract_one_tuple_missing [OF split None]
              extract_one_tuple_missing [OF splitq None])
      next
        case el: (Some el)
        show ?thesis
        proof (cases "split_py el (subelement_separator p)")
          case (Inl err)
          then have "split_py el (subelement_separator q) = Inl err" using s by simp
          with Inl show ?thesis
            by (simp add: leaf_at_def Some PTuple extract_one_tuple_split_error [OF split el]
                extract_one_tuple_split_error [OF splitq el])
        next
          case subs: (Inr subs)
          then have subsq: "split_py el (subelement_separator q) = Inr subs" using s by simp
          show ?thesis
          proof (cases "py_index subs j")
            case None
            then show ?thesis
              by (simp add: leaf_at_def Some PTuple extract_one_sub_missing [OF split el subs None]
                  extract_one_sub_missing [OF splitq el subsq None])
          next
            case sub: (Some sub)
            show ?thesis
              by (simp add: leaf_at_def Some PTuple extract_one_tuple [OF split el subs sub]
                  extract_one_tuple [OF splitq el subsq sub]
                  fst_date_convert [of rf q _ _ _ _ _ _ _ _ _ p])
          qed
        qed
      qed
    qed
  qed
qed

lemma leaf_at_logged [simp]:
  "leaf_at rf (logged p fs) seg posn dt fin fout sd pa fd = leaf_at rf p seg posn dt fin fout sd pa fd"
  by (rule leaf_at_same_separators) simp_all

lemma extract_one_leaf_at:
  "extract_one rf p seg posn dt fin fout sd pa fd =
     (leaf_at rf p seg posn dt fin fout sd pa fd,
      case leaf_at rf p seg posn dt fin fout sd pa fd of
        Inl e \<Rightarrow> p
      | Inr l \<Rightarrow> logged p (leaf_failures l))"
  using extract_one_logged [of rf p seg posn dt fin fout sd pa fd]
  by (auto simp: leaf_at_def)

lemma extract_list_leaves:
  "extract_list rf p seg posn dt fin fout sd ps = (Inr vs, p') \<Longrightarrow>
   map (\<lambda>x. leaf_at rf p seg posn dt fin fout sd (Some x) None) ps = map Inr vs"
proof (induction ps arbitrary: p vs p')
  case Nil
  then show ?case by simp
next
  case (Cons x xs)
  show ?case
  proof (cases "leaf_at rf p seg posn dt fin fout sd (Some x) None")
    case (Inl e)
    with Cons.prems show ?thesis
      by (simp add: extract_one_leaf_at)
  next
    case (Inr l)
    let ?p1 = "logged p (leaf_failures l)"
    obtain r2 p2 where rest: "extract_list rf ?p1 seg posn dt fin fout sd xs = (r2, p2)"
      by (cases "extract_list rf ?p1 seg posn dt fin fout sd xs")
    show ?thesis
    proof (cases r2)
      case (Inl e)
      with Cons.prems Inr rest show ?thesis
        by (simp add: extract_one_leaf_at)
    next
      case tail: (Inr vs')
      with Cons.prems Inr rest have vs: "vs = l # vs'"
        by (simp add: extract_one_leaf_at)
      from Cons.IH [OF rest [unfolded tail]]
      have "map (\<lambda>x. leaf_at rf p seg posn dt fin fout sd (Some x) None) xs = map Inr vs'"
        by simp
      with Inr vs show ?thesis by simp
    qed
  qed
qed

lemma extract_dict_leaves:
  "extract_dict rf p seg posn dt fin fout sd acc kvs = (Inr res, p') \<Longrightarrow>
   distinct (map fst kvs) \<Longrightarrow> fst ` set kvs \<inter> fst ` set acc = {} \<Longrightarrow>
   \<exists>new. res = acc @ new \<and>
     map (\<lambda>(k, spec). (k, leaf_at rf p seg posn dt fin fout sd (entry_pos spec) (entry_force spec))) kvs =
     map (\<lambda>(k, l). (k, Inr l)) new"
proof (induction kvs arbitrary: p acc res p')
  case Nil
  then show ?case by simp
next
  case (Cons kv kvs)
  obtain key spec where kv: "kv = (key, spec)" by (cases kv)
  let ?leaf = "leaf_at rf p seg posn dt fin fout sd (entry_pos spec) (entry_force spec)"
  have step: "extract_dict rf p seg posn dt fin fout sd acc (kv # kvs) =
      (case extract_one rf p seg posn dt fin fout sd (entry_pos spec) (entry_force spec) of
         (Inl e, p') \<Rightarrow> (Inl e, p')
       | (Inr v, p') \<Rightarrow>
           extract_dict rf p' seg posn dt fin fout sd (AList.update key v acc) kvs)"
    by (simp add: kv entry_pos_def entry_force_def Let_def)
  have fresh: "key \<notin> fst ` set acc"
    using Cons.prems(3) kv by auto
  show ?case
  proof (cases ?leaf)
    case (Inl e)
    with Cons.prems(1) step show ?thesis
      by (simp add: extract_one_leaf_at)
  next
    case (Inr l)
    have upd: "AList.update key l acc = acc @ [(key, l)]"
      using fresh by (rule update_fresh)
    have rest: "extract_dict rf (logged p (leaf_failures l)) seg posn dt fin fout sd
                  (acc @ [(key, l)]) kvs = (Inr res, p')"
      using Cons.prems(1) step Inr upd by (simp add: extract_one_leaf_at)
    have d: "distinct (map fst kvs)" using Cons.prems(2) by simp
    have disj: "fst ` set kvs \<inter> fst ` set (acc @ [(key, l)]) = {}"
      using Cons.prems(2,3) kv by auto
    from Cons.IH [OF rest d disj] obtain new where
      new: "res = (acc @ [(key, l)]) @ new"
        "map (\<lambda>(k, spec). (k, leaf_at rf p seg posn dt fin fout sd
                                 (entry_pos spec) (entry_force spec))) kvs =
         map (\<lambda>(k, l). (k, Inr l)) new"
      by auto
    have "res = acc @ ((key, l) # new) \<and>
          map (\<lambda>(k, spec). (k, leaf_at rf p seg posn dt fin fout sd
                                 (entry_pos spec) (entry_force spec))) (kv # kvs) =
          map (\<lambda>(k, l). (k, Inr l)) ((key, l) # new)"
      using new Inr by (simp add: kv)
    then show ?thesis by blast
  qed
qed

lemma uee_leaves_match:
  assumes "universal_element_extract rf p seg posn dt fin fout = (Inr v, p')"
      and "well_formed posn"
  shows "leaves_match rf p seg posn dt fin fout v"
proof (cases posn)
  case (Single pp)
  let ?sd = "case pp of PInt i \<Rightarrow> True | PTuple i j \<Rightarrow> False"
  have eq: "universal_element_extract rf p seg (Single pp) dt fin fout =
     (case extract_one rf p seg (Single pp) dt fin fout ?sd (Some pp) None of
        (Inl e, p') \<Rightarrow> (Inl e, p')
      | (Inr v, p') \<Rightarrow> (Inr (Leaf v), p'))"
    by (cases pp) (simp_all add: uee_int uee_tuple)
  show ?thesis
  proof (cases "leaf_at rf p seg (Single pp) dt fin fout ?sd (Some pp) None")
    case (Inl e)
    with assms(1) Single eq show ?thesis
      by (simp add: extract_one_leaf_at)
  next
    case (Inr l)
    with assms(1) Single eq have "v = Leaf l"
      by (simp add: extract_one_leaf_at)
    with Inr Single show ?thesis
      by (simp add: leaves_match_def)
  qed
next
  case (PList ps)
  obtain r2 p2 where l: "extract_list rf p seg (PList ps) dt fin fout False ps = (r2, p2)"
    by (cases "extract_list rf p seg (PList ps) dt fin fout False ps")
  show ?thesis
  proof (cases r2)
    case (Inl e)
    with assms(1) PList l show ?thesis by (simp add: uee_list)
  next
    case (Inr vs)
    with assms(1) PList l have v: "v = LeafList vs" by (simp add: uee_list)
    from extract_list_leaves [OF l [unfolded Inr]] v PList show ?thesis
      by (simp add: leaves_match_def)
  qed
next
  case (PDict kvs)
  obtain r2 p2 where l: "extract_dict rf p seg (PDict kvs) dt fin fout False [] kvs = (r2, p2)"
    by (cases "extract_dict rf p seg (PDict kvs) dt fin fout False [] kvs")
  have d: "distinct (map fst kvs)" using assms(2) PDict by (simp add: well_formed_def)
  show ?thesis
  proof (cases r2)
    case (Inl e)
    with assms(1) PDict l show ?thesis by (simp add: uee_dict)
  next
    case (Inr res)
    with assms(1) PDict l have v: "v = LeafDict res" by (simp add: uee_dict)
    have "fst ` set kvs \<inter> fst ` set [] = {}" by simp
    from extract_dict_leaves [OF l [unfolded Inr] d this] v PDict show ?thesis
      by (simp add: leaves_match_def)
  qed
next
  case Unsupported
  with assms(1) show ?thesis
    by (simp add: universal_element_extract_def)
qed

section \<open>Properties of the X12 handlers\<close>

lemma x12_fields_logged [simp]:
  fixes p :: "'a EdiX12_scheme"
  shows "date_format (logged p fs) = date_format p"
    and "record_start_segment (logged p fs) = record_start_segment p"
    and "document_type (logged p fs) = document_type p"
    and "edi_version (logged p fs) = edi_version p"
  by (simp_all add: logged_def)

lemma uee_int_plain_leaf:
  assumes "split_py seg (element_separator p) = Inr elems"
  shows "universal_element_extract rf p seg (Single (PInt i)) False fin fout =
           (Inr (Leaf (plain_leaf seg elems i)), logged p (leaf_failures (plain_leaf seg elems i)))"
proof (cases "py_index elems i")
  case None
  then show ?thesis
    by (simp add: plain_leaf_def uee_int_missing [OF assms None])
next
  case (Some el)
  then show ?thesis
    by (simp add: plain_leaf_def uee_int_plain [OF assms Some])
qed

lemma uee_int_returns:
  assumes "split_py seg (element_separator p) = Inr elems"
  shows "\<exists>l. universal_element_extract rf p seg (Single (PInt i)) dt fin fout =
               (Inr (Leaf l), logged p (leaf_failures l))"
proof (cases "py_index elems i")
  case None
  then show ?thesis
    by (simp add: uee_int_missing [OF assms None])
next
  case (Some el)
  from date_convert_logged [of rf p seg "Single (PInt i)" dt fin fout True None None el]
  show ?thesis
    by (auto simp: uee_int extract_one_int [OF assms Some])
qed

lemma extract_one_lenient:
  assumes "split_py seg (element_separator p) = Inr elems"
  shows "extract_one rf p seg posn True fin fout False (Some (PInt i)) None =
           (Inr (lenient_leaf rf seg elems fin fout i),
            logged p (leaf_failures (lenient_leaf rf seg elems fin fout i)))"
proof (cases "py_index elems i")
  case None
  then show ?thesis
    by (simp add: lenient_leaf_def extract_one_int_missing [OF assms None])
next
  case (Some el)
  show ?thesis
  proof (cases "rf el fin fout")
    case (Inl msg)
    then show ?thesis
      by (simp add: lenient_leaf_def Some extract_one_int [OF assms Some] date_convert_lenient)
  next
    case (Inr t)
    then show ?thesis
      by (simp add: lenient_leaf_def Some extract_one_int [OF assms Some] date_convert_parsed)
  qed
qed

lemma uee_pair_lenient:
  assumes "split_py seg (element_separator p) = Inr elems"
  shows "universal_element_extract rf p seg (PList [PInt a, PInt b]) True fin fout =
           (Inr (LeafList [lenient_leaf rf seg elems fin fout a, lenient_leaf rf seg elems fin fout b]),
            logged p (leaf_failures (lenient_leaf rf seg elems fin fout a)
                      @ leaf_failures (lenient_leaf rf seg elems fin fout b)))"
proof -
  let ?P = "PList [PInt a, PInt b]"
  let ?la = "lenient_leaf rf seg elems fin fout a"
  let ?lb = "lenient_leaf rf seg elems fin fout b"
  have one: "extract_one rf p seg ?P True fin fout False (Some (PInt a)) None =
               (Inr ?la, logged p (leaf_failures ?la))"
    using assms by (rule extract_one_lenient)
  have "split_py seg (element_separator (logged p (leaf_failures ?la))) = Inr elems"
    using assms by simp
  then have two: "extract_one rf (logged p (leaf_failures ?la)) seg ?P True fin fout False
                    (Some (PInt b)) None =
               (Inr ?lb, logged (logged p (leaf_failures ?la)) (leaf_failures ?lb))"
    by (rule extract_one_lenient)
  show ?thesis
    by (simp add: uee_list one two)
qed

lemma handle_start_unset:
  assumes "split_py seg (element_separator p) = Inr elems"
      and "date_format p = None"
  shows "handle_start rf p seg st =
           (Inl AttributeError,
            logged p (leaf_failures (plain_leaf seg elems (record_no_index (record_start_segment p)))),
            archived st)"
proof -
  let ?l = "plain_leaf seg elems (record_no_index (record_start_segment p))"
  have first: "universal_element_extract rf p seg
                 (Single (PInt (record_no_index (record_start_segment p))))
                 False default_format_in default_format_out =
               (Inr (Leaf ?l), logged p (leaf_failures ?l))"
    using assms(1) by (rule uee_int_plain_leaf)
  show ?thesis
    unfolding handle_start_def
    by (simp add: first assms(2) archived_def Let_def)
qed

lemma handle_start_set:
  assumes "split_py seg (element_separator p) = Inr elems"
      and "date_format p = Some fmt"
  shows "handle_start rf p seg st =
           (Inr (),
            logged p (leaf_failures (plain_leaf seg elems (record_no_index (record_start_segment p)))
                      @ leaf_failures (lenient_leaf rf seg elems fmt default_format_out 6)
                      @ leaf_failures (lenient_leaf rf seg elems fmt default_format_out 7)),
            (archived st)
              \<lparr>edi_class := Some
                 \<lparr>ref_no = plain_leaf seg elems (record_no_index (record_start_segment p)),
                  part_list = [],
                  document_issue_date = state_document_issue_date st,
                  horizon_start_date = Some (lenient_leaf rf seg elems fmt default_format_out 6),
                  horizon_end_date = Some (lenient_leaf rf seg elems fmt default_format_out 7)\<rparr>\<rparr>)"
proof -
  let ?l = "plain_leaf seg elems (record_no_index (record_start_segment p))"
  let ?p1 = "logged p (leaf_failures ?l)"
  have first: "universal_element_extract rf p seg
                 (Single (PInt (record_no_index (record_start_segment p))))
                 False default_format_in default_format_out =
               (Inr (Leaf ?l), ?p1)"
    using assms(1) by (rule uee_int_plain_leaf)
  have "split_py seg (element_separator ?p1) = Inr elems"
    using assms(1) by simp
  note second = uee_pair_lenient [OF this, of rf 6 7 fmt default_format_out]
  have issue: "state_document_issue_date (archived st) = state_document_issue_date st"
    by (simp add: archived_def split: option.splits)
  have arch: "(case edi_class st of
                 Some open_doc \<Rightarrow>
                   st\<lparr>edi_class_list := edi_class_list st @ [open_doc], edi_class := None\<rparr>
               | None \<Rightarrow> st) = archived st"
    by (simp add: archived_def)
  show ?thesis
    unfolding handle_start_def
    by (simp add: first assms(2) second arch issue Let_def EdiDocument_init_def)
qed

lemma handle_inner_returns:
  assumes "split_py seg (element_separator p) = Inr elems"
      and "py_index elems 8 = Some v"
  shows "\<exists>d. handle_inner rf p seg st =
           (Inr (),
            logged (p\<lparr>edi_version := Some (take 4 v),
                      date_format := Some (case map_of DATE_FORMATS (take 4 v) of
                                             Some f \<Rightarrow> f | None \<Rightarrow> ''%Y%m%d'')\<rparr>)
                   (leaf_failures d),
            st\<lparr>state_document_issue_date := Some d\<rparr>)"
proof -
  let ?fmt = "case map_of DATE_FORMATS (take 4 v) of Some f \<Rightarrow> f | None \<Rightarrow> ''%Y%m%d''"
  let ?p3 = "p\<lparr>edi_version := Some (take 4 v), date_format := Some ?fmt\<rparr>"
  have first: "universal_element_extract rf p seg (Single (PInt 8)) False
                 default_format_in default_format_out = (Inr (Leaf (Val v)), p)"
    using assms by (rule uee_int_plain)
  have "split_py seg (element_separator ?p3) = Inr elems"
    using assms(1) by simp
  from uee_int_returns [OF this, of rf 4 True ?fmt default_format_out]
  obtain d where second: "universal_element_extract rf ?p3 seg (Single (PInt 4)) True ?fmt
                            default_format_out = (Inr (Leaf d), logged ?p3 (leaf_failures d))"
    by blast
  have "handle_inner rf p seg st =
          (Inr (), logged ?p3 (leaf_failures d), st\<lparr>state_document_issue_date := Some d\<rparr>)"
    unfolding handle_inner_def
    by (simp add: first second Let_def)
  then show ?thesis by blast
qed

lemma handle_loop_known:
  assumes "split_py seg (element_separator p) = Inr elems"
      and "py_index elems 1 = Some t"
      and "map_of START_SEGMENTS t = Some code"
  shows "handle_loop rf p seg st =
           (Inr (), p\<lparr>document_type := Some (Val t), record_start_segment := CodeStr code\<rparr>, st)"
proof -
  have first: "universal_element_extract rf p seg (Single (PInt 1)) False
                 default_format_in default_format_out = (Inr (Leaf (Val t)), p)"
    using assms(1,2) by (rule uee_int_plain)
  show ?thesis
    unfolding handle_loop_def
    by (simp add: first assms(3) Let_def)
qed

lemma START_SEGMENTS_850: "map_of START_SEGMENTS ''850'' = Some ''BEG''"
  by (simp add: START_SEGMENTS_def)

lemma record_no_index_BEG: "record_no_index (CodeStr ''BEG'') = 3"
  by (simp add: record_no_index_def in_group_def GROUP_3_def)

lemma handle_accum_01:
  assumes "split_py seg (element_separator p) = Inr elems"
      and "py_index elems 1 = Some ''01''"
      and "part_record st = Some r"
  shows "handle_accum rf p seg st =
           (Inr (),
            logged p (leaf_failures (lenient_leaf rf seg elems default_format_in default_format_out 2)
                      @ leaf_failures (lenient_leaf rf seg elems default_format_in default_format_out 4)),
            st\<lparr>part_objects :=
                 (part_objects st)
                   (r := (part_objects st r)
                      \<lparr>last_received_ship_quantity :=
                         Some (lenient_leaf rf seg elems default_format_in default_format_out 2),
                       last_received_ship_date :=
                         Some (lenient_leaf rf seg elems default_format_in default_format_out 4)\<rparr>)\<rparr>)"
proof -
  have first: "universal_element_extract rf p seg (Single (PInt 1)) False
                 default_format_in default_format_out = (Inr (Leaf (Val ''01'')), p)"
    using assms(1,2) by (rule uee_int_plain)
  note second = uee_pair_lenient [OF assms(1), of rf 2 4 default_format_in default_format_out]
  show ?thesis
    unfolding handle_accum_def
    by (simp add: first second assms(3))
qed

lemma lenient_leaf_present:
  "py_index elems i = Some el \<Longrightarrow>
   lenient_leaf rf seg elems fin fout i =
     Val (case rf el fin fout of Inr t \<Rightarrow> t | Inl msg \<Rightarrow> el)"
  by (simp add: lenient_leaf_def split: sum.splits)

section \<open>The claims\<close>

lemma split_ST: "split_py ''ST*850*0001'' ''*'' = Inr [''ST'', ''850'', ''0001'']"
  by (simp add: split_py_def)

text \<open>
  C5. A segment that splits into no more elements than a requested element index \<open>i\<close>
  (so that index \<open>i\<close> is out of range): a request for that element, alone or with a
  subelement index, returns normally; the value is a failure whose \<open>failure_point\<close>
  is \<open>Element Index\<close>, whose \<open>segment\<close> is the segment and whose
  \<open>position\<close> is \<open>i\<close>, and the same failure is appended to the log.
\<close>

theorem short_segment_element_index_failure:
  assumes "split_py seg (element_separator p) = Inr elems"
      and "int (length elems) \<le> i"
      and "pp = PInt i \<or> pp = PTuple i j"
  shows "\<exists>f. universal_element_extract rf p seg (Single pp) dt fin fout =
               (Inr (Leaf (Fail f)), logged p [f])
             \<and> failure_point f = ''Element Index''
             \<and> segment f = seg
             \<and> position f = Single (PInt i)"
proof -
  have none: "py_index elems i = None"
    using assms(2) by (rule py_index_beyond)
  have "universal_element_extract rf p seg (Single pp) dt fin fout =
          (Inr (Leaf (Fail (element_index_failure seg i))), logged p [element_index_failure seg i])"
    using assms(3) uee_int_missing [OF assms(1) none] uee_tuple_missing [OF assms(1) none]
    by auto
  then show ?thesis
    by (simp add: element_index_failure_fields)
qed

theorem short_segment_element_index_failure_witness:
  "split_py ''ST*850*0001'' (element_separator x12_parser) = Inr [''ST'', ''850'', ''0001'']
   \<and> int (length [''ST'', ''850'', ''0001'']) \<le> 3
   \<and> (\<exists>f. universal_element_extract sample_reformat x12_parser ''ST*850*0001'' (Single (PInt 3))
              False default_format_in default_format_out =
               (Inr (Leaf (Fail f)), logged x12_parser [f])
             \<and> failure_point f = ''Element Index''
             \<and> segment f = ''ST*850*0001''
             \<and> position f = Single (PInt 3))"
proof -
  have s: "split_py ''ST*850*0001'' (element_separator x12_parser) = Inr [''ST'', ''850'', ''0001'']"
    by (simp add: x12_parser_def split_ST)
  have n: "int (length [''ST'', ''850'', ''0001'']) \<le> 3" by simp
  show ?thesis
    using s n short_segment_element_index_failure [OF s n, of "PInt 3" 0]
    by blast
qed

text \<open>
  C10. A negative element index \<open>i\<close> whose absolute value is at most the number of
  elements: the request returns the element counted from the end, \<open>elems[len + i]\<close>,
  and index \<open>-1\<close> the last element; the parser is unchanged. With the date option
  the value may be reformatted or a date failure, never an \<open>Element Index\<close> failure.
\<close>

theorem negative_index_counts_from_end:
  assumes "split_py seg (element_separator p) = Inr elems"
      and "i < 0"
      and "- i \<le> int (length elems)"
  shows "universal_element_extract rf p seg (Single (PInt i)) False fin fout =
           (Inr (Leaf (Val (elems ! nat (int (length elems) + i)))), p)
         \<and> (i = - 1 \<longrightarrow>
              universal_element_extract rf p seg (Single (PInt i)) False fin fout =
                (Inr (Leaf (Val (last elems))), p))
         \<and> (\<forall>dt. \<exists>l. universal_element_extract rf p seg (Single (PInt i)) dt fin fout =
                      (Inr (Leaf l), logged p (leaf_failures l))
                    \<and> (\<forall>f. l = Fail f \<longrightarrow> failure_point f \<noteq> ''Element Index''))"
proof -
  let ?el = "elems ! nat (int (length elems) + i)"
  have el: "py_index elems i = Some ?el"
    using assms(2,3) by (rule py_index_negative)
  have plain: "universal_element_extract rf p seg (Single (PInt i)) False fin fout =
                 (Inr (Leaf (Val ?el)), p)"
    using assms(1) el by (rule uee_int_plain)
  have last: "universal_element_extract rf p seg (Single (PInt i)) False fin fout =
                (Inr (Leaf (Val (last elems))), p)" if "i = - 1"
  proof -
    have "elems \<noteq> []" using assms(2,3) by auto
    moreover have "nat (int (length elems) + - 1) = length elems - 1"
      by arith
    ultimately have "?el = last elems"
      using that by (simp add: last_conv_nth)
    with plain show ?thesis by simp
  qed
  have dated: "\<exists>l. universal_element_extract rf p seg (Single (PInt i)) dt fin fout =
                      (Inr (Leaf l), logged p (leaf_failures l))
                    \<and> (\<forall>f. l = Fail f \<longrightarrow> failure_point f \<noteq> ''Element Index'')" for dt
    using date_convert_not_index [of rf p seg "Single (PInt i)" dt fin fout True None None ?el]
    by (auto simp: uee_int extract_one_int [OF assms(1) el])
  show ?thesis
    using plain last dated by blast
qed

theorem negative_index_counts_from_end_witness:
  "split_py ''ST*850*0001'' (element_separator x12_parser) = Inr [''ST'', ''850'', ''0001'']
   \<and> (- 1 :: int) < 0 \<and> - (- 1) \<le> int (length [''ST'', ''850'', ''0001''])
   \<and> universal_element_extract sample_reformat x12_parser ''ST*850*0001'' (Single (PInt (- 1)))
        False default_format_in default_format_out = (Inr (Leaf (Val ''0001'')), x12_parser)"
proof -
  have s: "split_py ''ST*850*0001'' (element_separator x12_parser) = Inr [''ST'', ''850'', ''0001'']"
    by (simp add: x12_parser_def split_ST)
  have a: "(- 1 :: int) < 0" by simp
  have b: "- (- 1) \<le> int (length [''ST'', ''850'', ''0001''])" by simp
  show ?thesis
    using s negative_index_counts_from_end [OF s a b, of sample_reformat default_format_in default_format_out]
    by simp
qed

lemma x12_parser_separators:
  "element_separator x12_parser = ''*''" "subelement_separator x12_parser = ''<''"
  by (simp_all add: x12_parser_def)

lemma extract_one_850:
  fixes q :: EdiX12
  assumes "element_separator q = ''*''"
  shows "extract_one sample_reformat q ''ST*850*0001'' P True default_format_in default_format_out False
               (Some (PInt 1)) None = (Inr (Val ''850''), q)"
proof -
  have s: "split_py ''ST*850*0001'' (element_separator q) = Inr [''ST'', ''850'', ''0001'']"
    using assms split_ST by simp
  have i: "py_index [''ST'', ''850'', ''0001''] 1 = Some ''850''"
    by (simp add: py_index_def)
  have r: "sample_reformat ''850'' default_format_in default_format_out =
             Inl ''time data does not match format''"
    by (simp add: sample_reformat_def)
  show ?thesis
    by (simp add: extract_one_int [OF s i] date_convert_lenient [where rf = sample_reformat, OF r])
qed

lemma extract_one_5:
  fixes q :: EdiX12
  assumes "element_separator q = ''*''"
  shows "extract_one sample_reformat q ''ST*850*0001'' P True default_format_in default_format_out False
               (Some (PInt 5)) None =
               (Inr (Fail (element_index_failure ''ST*850*0001'' 5)),
                logged q [element_index_failure ''ST*850*0001'' 5])"
proof -
  have s: "split_py ''ST*850*0001'' (element_separator q) = Inr [''ST'', ''850'', ''0001'']"
    using assms split_ST by simp
  have i: "py_index [''ST'', ''850'', ''0001''] 5 = None"
    by (simp add: py_index_def)
  show ?thesis
    by (rule extract_one_int_missing [OF s i])
qed

lemma sample_reformat_0001:
  "sample_reformat ''0001'' fin fout = Inl ''time data does not match format''"
  by (simp add: sample_reformat_def)

lemma extract_one_0001_forced:
  fixes q :: EdiX12
  assumes "element_separator q = ''*''"
  shows "extract_one sample_reformat q ''ST*850*0001'' P True fin fout False
               (Some (PInt 2)) (Some True) =
           (Inr (Fail (date_conversion_failure ''time data does not match format''
                         ''ST*850*0001'' P ''0001'' None fin fout)),
            logged q [date_conversion_failure ''time data does not match format''
                         ''ST*850*0001'' P ''0001'' None fin fout])"
proof -
  have s: "split_py ''ST*850*0001'' (element_separator q) = Inr [''ST'', ''850'', ''0001'']"
    using assms split_ST by simp
  have i: "py_index [''ST'', ''850'', ''0001''] 2 = Some ''0001''"
    by (simp add: py_index_def)
  show ?thesis
    by (simp add: extract_one_int [OF s i] date_convert_strict sample_reformat_0001)
qed

lemma extract_one_9:
  fixes q :: EdiX12
  assumes "element_separator q = ''*''"
  shows "extract_one sample_reformat q ''ST*850*0001'' P dt fin fout False (Some (PInt 9)) None =
           (Inr (Fail (element_index_failure ''ST*850*0001'' 9)),
            logged q [element_index_failure ''ST*850*0001'' 9])"
proof -
  have s: "split_py ''ST*850*0001'' (element_separator q) = Inr [''ST'', ''850'', ''0001'']"
    using assms split_ST by simp
  have i: "py_index [''ST'', ''850'', ''0001''] 9 = None"
    by (simp add: py_index_def)
  show ?thesis
    by (rule extract_one_int_missing [OF s i])
qed

lemma extract_one_without_pos:
  fixes q :: EdiX12
  assumes "element_separator q = ''*''"
  shows "extract_one sample_reformat q ''ST*850*0001'' P dt fin fout False None fd =
           (Inl TypeError, q)"
proof -
  have s: "split_py ''ST*850*0001'' (element_separator q) = Inr [''ST'', ''850'', ''0001'']"
    using assms split_ST by simp
  show ?thesis
    by (rule extract_one_no_pos [OF s])
qed

text \<open>
  C7, as stated, fails for a call that raises: with the dict
  \<open>{"a": 9, "b": {"date": True}, "c": 1}\<close> the failure for \<open>"a"\<close> is produced
  and logged, then the entry \<open>"b"\<close>, which has no \<open>"pos"\<close>, raises
  \<open>TypeError\<close>: the call returns nothing, and the logged failure is at no returned leaf.
\<close>

theorem logged_failure_is_not_returned_when_call_raises:
  "universal_element_extract sample_reformat x12_parser ''ST*850*0001''
       (PDict [(''a'', Plain (PInt 9)), (''b'', Spec None (Some True)), (''c'', Plain (PInt 1))])
       False default_format_in default_format_out =
     (Inl TypeError, logged x12_parser [element_index_failure ''ST*850*0001'' 9])
   \<and> failure_log x12_parser = []
   \<and> failure_log (logged x12_parser [element_index_failure ''ST*850*0001'' 9]) =
       [element_index_failure ''ST*850*0001'' 9]"
proof -
  have e: "failure_log x12_parser = []"
    by (simp add: failure_log_def x12_parser_def)
  show ?thesis
    by (simp add: uee_dict extract_one_9 extract_one_without_pos x12_parser_separators e)
qed

text \<open>
  C7, amended. Every call of \<open>universal_element_extract\<close>, whatever it returns or
  raises, leaves the parser unchanged except for failures appended to the end of its log.
  When the call returns, every leaf of the returned value is what its own position (list
  index, dict label) yields, and the failures appended are exactly the failures at those
  leaves, in the order of the leaves, which is the order in which they occurred: each
  returned failure is logged, and nothing else is.
\<close>

theorem returned_failures_are_logged_in_order:
  assumes "universal_element_extract rf p seg posn dt fin fout = (r, p')"
      and "well_formed posn"
  shows "(\<exists>fs. p' = logged p fs \<and> failure_log p' = failure_log p @ fs)
         \<and> (\<forall>v. r = Inr v \<longrightarrow>
               leaves_match rf p seg posn dt fin fout v
               \<and> p' = logged p (failures_of v)
               \<and> failure_log p' = failure_log p @ failures_of v)"
proof -
  have "(\<exists>fs. p' = logged p fs) \<and> (\<forall>v. r = Inr v \<longrightarrow> p' = logged p (failures_of v))"
  proof (cases posn)
    case (Single pp)
    with assms(1) show ?thesis by (simp add: uee_single_logged)
  next
    case (PList ps)
    with assms(1) show ?thesis by (simp add: uee_list_logged)
  next
    case (PDict kvs)
    with assms show ?thesis by (simp add: uee_dict_logged well_formed_def)
  next
    case Unsupported
    with assms(1) have "p' = p" "r = Inl TypeError"
      by (simp_all add: universal_element_extract_def)
    then show ?thesis by (auto intro: exI [of _ "[]"])
  qed
  moreover have "leaves_match rf p seg posn dt fin fout v" if "r = Inr v" for v
    using assms that by (auto intro: uee_leaves_match)
  ultimately show ?thesis by auto
qed

theorem returned_failures_are_logged_in_order_witness:
  "universal_element_extract sample_reformat x12_parser ''ST*850*0001''
       (PDict [(''qty'', Plain (PInt 1)), (''gone'', Plain (PInt 5)),
               (''when'', Spec (Some (PInt 2)) (Some True))])
       True default_format_in default_format_out =
     (Inr (LeafDict
        [(''qty'', Val ''850''),
         (''gone'', Fail (element_index_failure ''ST*850*0001'' 5)),
         (''when'', Fail (date_conversion_failure ''time data does not match format''
                           ''ST*850*0001''
                           (PDict [(''qty'', Plain (PInt 1)), (''gone'', Plain (PInt 5)),
                                   (''when'', Spec (Some (PInt 2)) (Some True))])
                           ''0001'' None default_format_in default_format_out))]),
      logged x12_parser
        [element_index_failure ''ST*850*0001'' 5,
         date_conversion_failure ''time data does not match format'' ''ST*850*0001''
           (PDict [(''qty'', Plain (PInt 1)), (''gone'', Plain (PInt 5)),
                   (''when'', Spec (Some (PInt 2)) (Some True))])
           ''0001'' None default_format_in default_format_out])
   \<and> well_formed (PDict [(''qty'', Plain (PInt 1)), (''gone'', Plain (PInt 5)),
                          (''when'', Spec (Some (PInt 2)) (Some True))])
   \<and> leaves_match sample_reformat x12_parser ''ST*850*0001''
        (PDict [(''qty'', Plain (PInt 1)), (''gone'', Plain (PInt 5)),
                (''when'', Spec (Some (PInt 2)) (Some True))])
        True default_format_in default_format_out
        (LeafDict
          [(''qty'', Val ''850''),
           (''gone'', Fail (element_index_failure ''ST*850*0001'' 5)),
           (''when'', Fail (date_conversion_failure ''time data does not match format''
                             ''ST*850*0001''
                             (PDict [(''qty'', Plain (PInt 1)), (''gone'', Plain (PInt 5)),
                                     (''when'', Spec (Some (PInt 2)) (Some True))])
                             ''0001'' None default_format_in default_format_out))])
   \<and> failure_log
        (logged x12_parser
          [element_index_failure ''ST*850*0001'' 5,
           date_conversion_failure ''time data does not match format'' ''ST*850*0001''
             (PDict [(''qty'', Plain (PInt 1)), (''gone'', Plain (PInt 5)),
                     (''when'', Spec (Some (PInt 2)) (Some True))])
             ''0001'' None default_format_in default_format_out]) =
       failure_log x12_parser @
         [element_index_failure ''ST*850*0001'' 5,
          date_conversion_failure ''time data does not match format'' ''ST*850*0001''
            (PDict [(''qty'', Plain (PInt 1)), (''gone'', Plain (PInt 5)),
                    (''when'', Spec (Some (PInt 2)) (Some True))])
            ''0001'' None default_format_in default_format_out]"
proof -
  let ?D = "PDict [(''qty'', Plain (PInt 1)), (''gone'', Plain (PInt 5)),
                   (''when'', Spec (Some (PInt 2)) (Some True))]"
  let ?S = "''ST*850*0001''"
  let ?f1 = "element_index_failure ?S 5"
  let ?f2 = "date_conversion_failure ''time data does not match format'' ?S ?D ''0001'' None
               default_format_in default_format_out"
  let ?V = "LeafDict [(''qty'', Val ''850''), (''gone'', Fail ?f1), (''when'', Fail ?f2)]"
  have e: "universal_element_extract sample_reformat x12_parser ?S ?D True
             default_format_in default_format_out = (Inr ?V, logged x12_parser [?f1, ?f2])"
    by (simp add: uee_dict extract_one_850 extract_one_5 extract_one_0001_forced
        x12_parser_separators)
  have w: "well_formed ?D" by (simp add: well_formed_def)
  note t = returned_failures_are_logged_in_order [OF e w]
  have m: "leaves_match sample_reformat x12_parser ?S ?D True default_format_in default_format_out ?V"
    using t by blast
  have "failure_log (logged x12_parser [?f1, ?f2]) = failure_log x12_parser @ failures_of ?V"
    using t by blast
  then have l: "failure_log (logged x12_parser [?f1, ?f2]) = failure_log x12_parser @ [?f1, ?f2]"
    by (simp add: failures_of_def)
  from e w m l show ?thesis by blast
qed

text \<open>
  C1. The claim: a parser constructed with an explicit separator is built and uses that
  separator. The code: with an element separator that is a non-empty string, whatever the
  other two arguments, \<open>__init__\<close> never assigns \<open>self.element_separator\<close>
  and raises \<open>AttributeError\<close> when the next line reads it.
\<close>

theorem element_separator_override_raises:
  "EdiBase_init decode ''X12'' (Some (c # cs)) subelement_sep segment_sep = Inl AttributeError"
proof -
  have v: "''X12'' \<in> VALID_LANGUAGES" by (simp add: VALID_LANGUAGES_def)
  from default_separator_lookup [OF v] obtain ds dg where
    d: "lookup2 DEFAULT_SEPARATORS ''X12'' ''SUBELEMENT'' = Inr ds"
       "lookup2 DEFAULT_SEPARATORS ''X12'' ''SEGMENT'' = Inr dg"
    by blast
  have t: "truthy (Some (c # cs))" by (simp add: truthy_def)
  show ?thesis
    unfolding EdiBase_init_def using v t d by simp
qed

text \<open>
  C2. The claim: the X12 class defines handlers for part details, releases and the file
  end, and an X12 parser can be constructed. The code: \<open>EdiX12\<close> leaves
  \<open>handle_part\<close>, \<open>handle_release\<close> and \<open>handle_end\<close> abstract,
  so creating an instance raises \<open>TypeError\<close> for every choice of arguments.
\<close>

theorem EdiX12_is_abstract:
  "abstractmethods EdiBase_abstract_methods EdiX12_methods =
     [''handle_part'', ''handle_release'', ''handle_end'']
   \<and> EdiX12_new decode element_sep subelement_sep segment_sep = Inl TypeError"
proof -
  have a: "abstractmethods EdiBase_abstract_methods EdiX12_methods =
     [''handle_part'', ''handle_release'', ''handle_end'']"
    by (simp add: abstractmethods_def EdiBase_abstract_methods_def EdiX12_methods_def)
  then show ?thesis by (simp add: EdiX12_new_def)
qed

lemma split_DTM: "split_py ''DTM*011<notadate'' ''*'' = Inr [''DTM'', ''011<notadate'']"
  by (simp add: split_py_def)

lemma split_011: "split_py ''011<notadate'' ''<'' = Inr [''011'', ''notadate'']"
  by (simp add: split_py_def)

lemma sample_reformat_notadate:
  "sample_reformat ''notadate'' fin fout = Inl ''time data does not match format''"
  by (simp add: sample_reformat_def)

text \<open>
  C4. The claim: a single-position request with the date option, in the int form and in
  the tuple form, returns a \<open>Date conversion\<close> failure when the text does not parse.
  The code, in the tuple form: the subelement \<open>notadate\<close> of
  \<open>DTM*011<notadate\<close> does not parse, and the request for \<open>(1, 1)\<close> returns
  the unparsed text and logs nothing. \<open>single_date\<close> tests for an int only, while
  the branch that handles a single position takes an int and a tuple alike.
\<close>

theorem tuple_date_failure_is_not_reported:
  "sample_reformat ''notadate'' ''%Y%m%d'' ''%m-%d-%Y'' = Inl ''time data does not match format''
   \<and> universal_element_extract sample_reformat x12_parser ''DTM*011<notadate''
        (Single (PTuple 1 1)) True ''%Y%m%d'' ''%m-%d-%Y'' =
      (Inr (Leaf (Val ''notadate'')), x12_parser)"
proof -
  have s: "split_py ''DTM*011<notadate'' (element_separator x12_parser) = Inr [''DTM'', ''011<notadate'']"
    by (simp add: x12_parser_separators split_DTM)
  have i: "py_index [''DTM'', ''011<notadate''] 1 = Some ''011<notadate''"
    by (simp add: py_index_def)
  have s2: "split_py ''011<notadate'' (subelement_separator x12_parser) = Inr [''011'', ''notadate'']"
    by (simp add: x12_parser_separators split_011)
  have j: "py_index [''011'', ''notadate''] 1 = Some ''notadate''"
    by (simp add: py_index_def)
  show ?thesis
    using tuple_date_failure_swallowed [where rf = sample_reformat and fin = "''%Y%m%d''" and fout = "''%m-%d-%Y''",
        OF s i s2 j sample_reformat_notadate]
    by (simp add: sample_reformat_notadate)
qed

text \<open>
  X3, the int form of C4: a request for one element index with the date option, whose
  extracted text does not parse under the input format, returns a failure with
  \<open>failure_point\<close> \<open>Date conversion\<close> that carries both format strings
  (and the element, the segment and the index), and appends it to the log.
\<close>

theorem int_date_failure_is_reported:
  assumes "split_py seg (element_separator p) = Inr elems"
      and "py_index elems i = Some el"
      and "rf el fin fout = Inl msg"
  shows "\<exists>f. universal_element_extract rf p seg (Single (PInt i)) True fin fout =
               (Inr (Leaf (Fail f)), logged p [f])
             \<and> failure_point f = ''Date conversion''
             \<and> date_format_in f = fin \<and> date_format_out f = fout
             \<and> element f = Some el \<and> segment f = seg \<and> position f = Single (PInt i)"
  using int_date_failure [where rf = rf and fin = fin and fout = fout, OF assms]
  by (simp add: date_conversion_failure_def)

lemma split_DTM2: "split_py ''DTM*011*notadate'' ''*'' = Inr [''DTM'', ''011'', ''notadate'']"
  by (simp add: split_py_def)

theorem int_date_failure_is_reported_witness:
  "split_py ''DTM*011*notadate'' (element_separator x12_parser) = Inr [''DTM'', ''011'', ''notadate'']
   \<and> py_index [''DTM'', ''011'', ''notadate''] 2 = Some ''notadate''
   \<and> sample_reformat ''notadate'' ''%Y%m%d'' ''%m-%d-%Y'' = Inl ''time data does not match format''
   \<and> (\<exists>f. universal_element_extract sample_reformat x12_parser ''DTM*011*notadate''
              (Single (PInt 2)) True ''%Y%m%d'' ''%m-%d-%Y'' =
               (Inr (Leaf (Fail f)), logged x12_parser [f])
             \<and> failure_point f = ''Date conversion''
             \<and> date_format_in f = ''%Y%m%d'' \<and> date_format_out f = ''%m-%d-%Y'')"
proof -
  have s: "split_py ''DTM*011*notadate'' (element_separator x12_parser) = Inr [''DTM'', ''011'', ''notadate'']"
    by (simp add: x12_parser_separators split_DTM2)
  have i: "py_index [''DTM'', ''011'', ''notadate''] 2 = Some ''notadate''"
    by (simp add: py_index_def)
  have r: "sample_reformat ''notadate'' ''%Y%m%d'' ''%m-%d-%Y'' = Inl ''time data does not match format''"
    by (rule sample_reformat_notadate)
  show ?thesis
    using s i r
      int_date_failure_is_reported [where rf = sample_reformat and fin = "''%Y%m%d''"
          and fout = "''%m-%d-%Y''", OF s i r]
    by blast
qed

lemma split_SHP:
  "split_py ''SHP*01*100*050*notadate'' ''*'' = Inr [''SHP'', ''01'', ''100'', ''050'', ''notadate'']"
  by (simp add: split_py_def)

lemma split_SHP_dated:
  "split_py ''SHP*01*100*050*20250115'' ''*'' = Inr [''SHP'', ''01'', ''100'', ''050'', ''20250115'']"
  by (simp add: split_py_def)

lemma sample_reformat_100:
  "sample_reformat ''100'' default_format_in default_format_out = Inl ''time data does not match format''"
  by (simp add: sample_reformat_def)

lemma sample_reformat_20250115:
  "sample_reformat ''20250115'' default_format_in default_format_out = Inr ''01-15-2025''"
  by (simp add: sample_reformat_def default_format_in_def default_format_out_def)

text \<open>
  C3, as stated, fails: on the segment \<open>SHP*01*100*050*notadate\<close>, with a part open
  and the active date format \<open>%Y%m%d\<close>, element 4 does not parse, and the failure log
  is as empty after \<open>handle_accum\<close> as before it.
\<close>

theorem accum_01_unparsed_date_is_not_logged:
  "date_format (x12_parser\<lparr>date_format := Some ''%Y%m%d''\<rparr>) = Some ''%Y%m%d''
   \<and> py_index [''SHP'', ''01'', ''100'', ''050'', ''notadate''] 4 = Some ''notadate''
   \<and> sample_reformat ''notadate'' ''%Y%m%d'' ''%m-%d-%Y'' = Inl ''time data does not match format''
   \<and> failure_log (x12_parser\<lparr>date_format := Some ''%Y%m%d''\<rparr>) = []
   \<and> failure_log (fst (snd (handle_accum sample_reformat (x12_parser\<lparr>date_format := Some ''%Y%m%d''\<rparr>)
                       ''SHP*01*100*050*notadate'' sample_state))) = []"
proof -
  let ?p = "x12_parser\<lparr>date_format := Some ''%Y%m%d''\<rparr>"
  let ?E = "[''SHP'', ''01'', ''100'', ''050'', ''notadate'']"
  have s: "split_py ''SHP*01*100*050*notadate'' (element_separator ?p) = Inr ?E"
    by (simp add: x12_parser_separators split_SHP)
  have i1: "py_index ?E 1 = Some ''01''" by (simp add: py_index_def)
  have i4: "py_index ?E 4 = Some ''notadate''" by (simp add: py_index_def)
  have pr: "part_record sample_state = Some 0" by (simp add: sample_state_def)
  have q: "lenient_leaf sample_reformat ''SHP*01*100*050*notadate'' ?E
             default_format_in default_format_out 2 = Val ''100''"
    by (simp add: lenient_leaf_def py_index_def sample_reformat_100)
  have d: "lenient_leaf sample_reformat ''SHP*01*100*050*notadate'' ?E
             default_format_in default_format_out 4 = Val ''notadate''"
    by (simp add: lenient_leaf_def py_index_def sample_reformat_notadate)
  have e: "failure_log ?p = []"
    by (simp add: failure_log_def x12_parser_def)
  show ?thesis
    by (simp add: handle_accum_01 [OF s i1 pr] q d e i4 sample_reformat_notadate)
qed

text \<open>
  C3, amended. An accumulation segment with qualifier \<open>01\<close> that holds elements 2 and
  4, handled while a part is open and while the active date format is \<open>%Y%m%d\<close>: the
  handler returns and sets \<open>last_received_ship_quantity\<close> and
  \<open>last_received_ship_date\<close> of the open part object from elements 2 and 4 with date
  parsing, each field being the reformatted text when the element parses and the element
  itself when it does not. When the text at element 4 does not parse, the date field is that
  text, the quantity field is still set from element 2, and nothing is appended to the
  failure log: the parser is unchanged. Nothing else in the state changes.
\<close>

theorem accum_01_sets_quantity_and_date_leniently:
  assumes "split_py seg (element_separator p) = Inr elems"
      and "py_index elems 1 = Some ''01''"
      and "py_index elems 2 = Some qty"
      and "py_index elems 4 = Some dtext"
      and "part_record st = Some r"
      and "date_format p = Some fmt"
      and "fmt = default_format_in"
  shows "case handle_accum rf p seg st of
           (res, p', st') \<Rightarrow>
             res = Inr ()
             \<and> p' = p
             \<and> failure_log p' = failure_log p
             \<and> st' = st\<lparr>part_objects :=
                        (part_objects st)
                          (r := (part_objects st r)
                             \<lparr>last_received_ship_quantity :=
                                Some (Val (case rf qty fmt default_format_out of
                                             Inr t \<Rightarrow> t | Inl m \<Rightarrow> qty)),
                              last_received_ship_date :=
                                Some (Val (case rf dtext fmt default_format_out of
                                             Inr t \<Rightarrow> t | Inl m \<Rightarrow> dtext))\<rparr>)\<rparr>
             \<and> (\<forall>t. rf dtext fmt default_format_out = Inr t \<longrightarrow>
                    last_received_ship_date (part_objects st' r) = Some (Val t))
             \<and> (\<forall>m. rf dtext fmt default_format_out = Inl m \<longrightarrow>
                    last_received_ship_date (part_objects st' r) = Some (Val dtext))"
proof -
  have q: "lenient_leaf rf seg elems default_format_in default_format_out 2 =
             Val (case rf qty fmt default_format_out of Inr t \<Rightarrow> t | Inl m \<Rightarrow> qty)"
    using assms(3) by (simp add: lenient_leaf_present assms(7))
  have d: "lenient_leaf rf seg elems default_format_in default_format_out 4 =
             Val (case rf dtext fmt default_format_out of Inr t \<Rightarrow> t | Inl m \<Rightarrow> dtext)"
    using assms(4) by (simp add: lenient_leaf_present assms(7))
  show ?thesis
    by (auto simp: handle_accum_01 [OF assms(1,2,5)] q d)
qed

theorem accum_01_sets_quantity_and_date_leniently_witness:
  "(split_py ''SHP*01*100*050*20250115'' (element_separator (x12_parser\<lparr>date_format := Some ''%Y%m%d''\<rparr>)) =
      Inr [''SHP'', ''01'', ''100'', ''050'', ''20250115'']
    \<and> py_index [''SHP'', ''01'', ''100'', ''050'', ''20250115''] 1 = Some ''01''
    \<and> py_index [''SHP'', ''01'', ''100'', ''050'', ''20250115''] 2 = Some ''100''
    \<and> py_index [''SHP'', ''01'', ''100'', ''050'', ''20250115''] 4 = Some ''20250115''
    \<and> part_record sample_state = Some 0
    \<and> date_format (x12_parser\<lparr>date_format := Some ''%Y%m%d''\<rparr>) = Some ''%Y%m%d''
    \<and> ''%Y%m%d'' = default_format_in
    \<and> handle_accum sample_reformat (x12_parser\<lparr>date_format := Some ''%Y%m%d''\<rparr>)
         ''SHP*01*100*050*20250115'' sample_state =
        (Inr (), x12_parser\<lparr>date_format := Some ''%Y%m%d''\<rparr>,
         sample_state\<lparr>part_objects :=
           (part_objects sample_state)
             (0 := (part_objects sample_state 0)
                \<lparr>last_received_ship_quantity := Some (Val ''100''),
                 last_received_ship_date := Some (Val ''01-15-2025'')\<rparr>)\<rparr>))
   \<and> (split_py ''SHP*01*100*050*notadate'' (element_separator (x12_parser\<lparr>date_format := Some ''%Y%m%d''\<rparr>)) =
      Inr [''SHP'', ''01'', ''100'', ''050'', ''notadate'']
    \<and> py_index [''SHP'', ''01'', ''100'', ''050'', ''notadate''] 4 = Some ''notadate''
    \<and> handle_accum sample_reformat (x12_parser\<lparr>date_format := Some ''%Y%m%d''\<rparr>)
         ''SHP*01*100*050*notadate'' sample_state =
        (Inr (), x12_parser\<lparr>date_format := Some ''%Y%m%d''\<rparr>,
         sample_state\<lparr>part_objects :=
           (part_objects sample_state)
             (0 := (part_objects sample_state 0)
                \<lparr>last_received_ship_quantity := Some (Val ''100''),
                 last_received_ship_date := Some (Val ''notadate'')\<rparr>)\<rparr>))"
proof -
  let ?p = "x12_parser\<lparr>date_format := Some ''%Y%m%d''\<rparr>"
  let ?E1 = "[''SHP'', ''01'', ''100'', ''050'', ''20250115'']"
  let ?E2 = "[''SHP'', ''01'', ''100'', ''050'', ''notadate'']"
  have s1: "split_py ''SHP*01*100*050*20250115'' (element_separator ?p) = Inr ?E1"
    by (simp add: x12_parser_separators split_SHP_dated)
  have s2: "split_py ''SHP*01*100*050*notadate'' (element_separator ?p) = Inr ?E2"
    by (simp add: x12_parser_separators split_SHP)
  have a1: "py_index ?E1 1 = Some ''01''" by (simp add: py_index_def)
  have a2: "py_index ?E1 2 = Some ''100''" by (simp add: py_index_def)
  have a4: "py_index ?E1 4 = Some ''20250115''" by (simp add: py_index_def)
  have b1: "py_index ?E2 1 = Some ''01''" by (simp add: py_index_def)
  have b2: "py_index ?E2 2 = Some ''100''" by (simp add: py_index_def)
  have b4: "py_index ?E2 4 = Some ''notadate''" by (simp add: py_index_def)
  have pr: "part_record sample_state = Some 0" by (simp add: sample_state_def)
  have df: "date_format ?p = Some ''%Y%m%d''" by simp
  have dd: "''%Y%m%d'' = default_format_in" by (simp add: default_format_in_def)
  have r100: "sample_reformat ''100'' ''%Y%m%d'' default_format_out = Inl ''time data does not match format''"
    using sample_reformat_100 by (simp add: default_format_in_def)
  have rd: "sample_reformat ''20250115'' ''%Y%m%d'' default_format_out = Inr ''01-15-2025''"
    using sample_reformat_20250115 by (simp add: default_format_in_def)
  have rn: "sample_reformat ''notadate'' ''%Y%m%d'' default_format_out = Inl ''time data does not match format''"
    by (rule sample_reformat_notadate)
  have one: "handle_accum sample_reformat ?p ''SHP*01*100*050*20250115'' sample_state =
        (Inr (), ?p,
         sample_state\<lparr>part_objects :=
           (part_objects sample_state)
             (0 := (part_objects sample_state 0)
                \<lparr>last_received_ship_quantity := Some (Val ''100''),
                 last_received_ship_date := Some (Val ''01-15-2025'')\<rparr>)\<rparr>)"
    using accum_01_sets_quantity_and_date_leniently
            [where rf = sample_reformat and fmt = "''%Y%m%d''", OF s1 a1 a2 a4 pr df dd]
    by (simp add: r100 rd split: prod.splits)
  have two: "handle_accum sample_reformat ?p ''SHP*01*100*050*notadate'' sample_state =
        (Inr (), ?p,
         sample_state\<lparr>part_objects :=
           (part_objects sample_state)
             (0 := (part_objects sample_state 0)
                \<lparr>last_received_ship_quantity := Some (Val ''100''),
                 last_received_ship_date := Some (Val ''notadate'')\<rparr>)\<rparr>)"
    using accum_01_sets_quantity_and_date_leniently
            [where rf = sample_reformat and fmt = "''%Y%m%d''", OF s2 b1 b2 b4 pr df dd]
    by (simp add: r100 rn split: prod.splits)
  show ?thesis
    using s1 a1 a2 a4 pr df dd one s2 b4 two by blast
qed

text \<open>
  C6. A traversal state with an open document, and a parser whose element separator is not
  empty: \<open>handle_start\<close> appends the open document, as it is, to the end of the
  completed list, whose length grows by exactly one. This happens before the new document is
  built: when \<open>handle_inner\<close> has set the date format the handler returns and the
  state holds a new open document (no parts yet, its record number taken from the start
  segment); when it has not, the handler raises \<open>AttributeError\<close> after the
  archiving and no document is open.
\<close>

theorem document_start_archives_open_document:
  assumes "split_py seg (element_separator p) = Inr elems"
      and "edi_class st = Some open_doc"
  shows "case handle_start rf p seg st of
           (r, p', st') \<Rightarrow>
             edi_class_list st' = edi_class_list st @ [open_doc]
             \<and> length (edi_class_list st') = length (edi_class_list st) + 1
             \<and> (date_format p = None \<longrightarrow> r = Inl AttributeError \<and> edi_class st' = None)
             \<and> (date_format p \<noteq> None \<longrightarrow>
                  r = Inr ()
                  \<and> (\<exists>new_doc. edi_class st' = Some new_doc
                        \<and> part_list new_doc = []
                        \<and> ref_no new_doc =
                            plain_leaf seg elems (record_no_index (record_start_segment p))))"
proof (cases "date_format p")
  case None
  have "archived st = st\<lparr>edi_class_list := edi_class_list st @ [open_doc], edi_class := None\<rparr>"
    using assms(2) by (simp add: archived_def)
  then show ?thesis
    by (simp add: handle_start_unset [OF assms(1) None] None)
next
  case (Some fmt)
  have "archived st = st\<lparr>edi_class_list := edi_class_list st @ [open_doc], edi_class := None\<rparr>"
    using assms(2) by (simp add: archived_def)
  then show ?thesis
    by (simp add: handle_start_set [OF assms(1) Some] Some)
qed

lemma split_BFR:
  "split_py ''BFR*00*REL01*0002*DL*A*20250115*20250115'' ''*'' =
     Inr [''BFR'', ''00'', ''REL01'', ''0002'', ''DL'', ''A'', ''20250115'', ''20250115'']"
  by (simp add: split_py_def)

theorem document_start_archives_open_document_witness:
  "split_py ''BFR*00*REL01*0002*DL*A*20250115*20250115''
       (element_separator (x12_parser\<lparr>date_format := Some ''%Y%m%d''\<rparr>)) =
     Inr [''BFR'', ''00'', ''REL01'', ''0002'', ''DL'', ''A'', ''20250115'', ''20250115'']
   \<and> edi_class sample_state = Some sample_document
   \<and> (case handle_start sample_reformat (x12_parser\<lparr>date_format := Some ''%Y%m%d''\<rparr>)
              ''BFR*00*REL01*0002*DL*A*20250115*20250115'' sample_state of
         (r, p', st') \<Rightarrow>
           r = Inr ()
           \<and> edi_class_list st' = [sample_document]
           \<and> length (edi_class_list st') = 1
           \<and> (\<exists>new_doc. edi_class st' = Some new_doc \<and> part_list new_doc = []
                 \<and> ref_no new_doc = Val ''BFR''))"
proof -
  let ?p = "x12_parser\<lparr>date_format := Some ''%Y%m%d''\<rparr>"
  let ?S = "''BFR*00*REL01*0002*DL*A*20250115*20250115''"
  let ?E = "[''BFR'', ''00'', ''REL01'', ''0002'', ''DL'', ''A'', ''20250115'', ''20250115'']"
  have s: "split_py ?S (element_separator ?p) = Inr ?E"
    by (simp add: x12_parser_separators split_BFR)
  have o: "edi_class sample_state = Some sample_document"
    by (simp add: sample_state_def)
  have l: "edi_class_list sample_state = []"
    by (simp add: sample_state_def)
  have d: "date_format ?p \<noteq> None" by simp
  have k: "record_no_index (record_start_segment ?p) = 0"
    by (simp add: x12_parser_def record_no_index_def in_group_def)
  have v: "plain_leaf ?S ?E 0 = Val ''BFR''"
    by (simp add: plain_leaf_def py_index_def)
  show ?thesis
    using document_start_archives_open_document [OF s o, of sample_reformat] s o l d k v
    by (auto split: prod.splits)
qed

text \<open>
  C8. An inner-message segment whose element 8 is present: \<open>handle_inner\<close> returns,
  \<open>edi_version\<close> is the first four characters of element 8, and the active date
  format is \<open>%y%m%d\<close> when they are \<open>0020\<close> and \<open>%Y%m%d\<close> when they
  are not a key of \<open>DATE_FORMATS\<close> (such as \<open>9999\<close>).
\<close>

theorem inner_message_sets_date_format:
  assumes "split_py seg (element_separator p) = Inr elems"
      and "py_index elems 8 = Some v"
  shows "case handle_inner rf p seg st of
           (r, p', st') \<Rightarrow>
             r = Inr ()
             \<and> edi_version p' = Some (take 4 v)
             \<and> (take 4 v = ''0020'' \<longrightarrow> date_format p' = Some ''%y%m%d'')
             \<and> (map_of DATE_FORMATS (take 4 v) = None \<longrightarrow> date_format p' = Some ''%Y%m%d'')"
proof -
  from handle_inner_returns [OF assms, of rf st] obtain d where
    "handle_inner rf p seg st =
           (Inr (),
            logged (p\<lparr>edi_version := Some (take 4 v),
                      date_format := Some (case map_of DATE_FORMATS (take 4 v) of
                                             Some f \<Rightarrow> f | None \<Rightarrow> ''%Y%m%d'')\<rparr>)
                   (leaf_failures d),
            st\<lparr>state_document_issue_date := Some d\<rparr>)"
    by blast
  then show ?thesis
    by (simp add: DATE_FORMATS_def)
qed

lemma split_GS:
  "split_py ''GS*SH*SENDER*RECEIVER*251031*1200*1*X*002003'' ''*'' =
     Inr [''GS'', ''SH'', ''SENDER'', ''RECEIVER'', ''251031'', ''1200'', ''1'', ''X'', ''002003'']"
  by (simp add: split_py_def)

lemma split_GS_unknown:
  "split_py ''GS*SH*SENDER*RECEIVER*20250115*1200*1*X*999901'' ''*'' =
     Inr [''GS'', ''SH'', ''SENDER'', ''RECEIVER'', ''20250115'', ''1200'', ''1'', ''X'', ''999901'']"
  by (simp add: split_py_def)

theorem inner_message_sets_date_format_witness:
  "(split_py ''GS*SH*SENDER*RECEIVER*251031*1200*1*X*002003'' (element_separator x12_parser) =
      Inr [''GS'', ''SH'', ''SENDER'', ''RECEIVER'', ''251031'', ''1200'', ''1'', ''X'', ''002003'']
    \<and> py_index [''GS'', ''SH'', ''SENDER'', ''RECEIVER'', ''251031'', ''1200'', ''1'', ''X'', ''002003''] 8 =
        Some ''002003''
    \<and> date_format (fst (snd (handle_inner sample_reformat x12_parser
          ''GS*SH*SENDER*RECEIVER*251031*1200*1*X*002003'' sample_state))) = Some ''%y%m%d'')
   \<and> (split_py ''GS*SH*SENDER*RECEIVER*20250115*1200*1*X*999901'' (element_separator x12_parser) =
      Inr [''GS'', ''SH'', ''SENDER'', ''RECEIVER'', ''20250115'', ''1200'', ''1'', ''X'', ''999901'']
    \<and> py_index [''GS'', ''SH'', ''SENDER'', ''RECEIVER'', ''20250115'', ''1200'', ''1'', ''X'', ''999901''] 8 =
        Some ''999901''
    \<and> map_of DATE_FORMATS ''9999'' = None
    \<and> date_format (fst (snd (handle_inner sample_reformat x12_parser
          ''GS*SH*SENDER*RECEIVER*20250115*1200*1*X*999901'' sample_state))) = Some ''%Y%m%d'')"
proof -
  let ?S1 = "''GS*SH*SENDER*RECEIVER*251031*1200*1*X*002003''"
  let ?E1 = "[''GS'', ''SH'', ''SENDER'', ''RECEIVER'', ''251031'', ''1200'', ''1'', ''X'', ''002003'']"
  let ?S2 = "''GS*SH*SENDER*RECEIVER*20250115*1200*1*X*999901''"
  let ?E2 = "[''GS'', ''SH'', ''SENDER'', ''RECEIVER'', ''20250115'', ''1200'', ''1'', ''X'', ''999901'']"
  have s1: "split_py ?S1 (element_separator x12_parser) = Inr ?E1"
    by (simp add: x12_parser_separators split_GS)
  have i1: "py_index ?E1 8 = Some ''002003''"
    by (simp add: py_index_def)
  have s2: "split_py ?S2 (element_separator x12_parser) = Inr ?E2"
    by (simp add: x12_parser_separators split_GS_unknown)
  have i2: "py_index ?E2 8 = Some ''999901''"
    by (simp add: py_index_def)
  have u: "map_of DATE_FORMATS ''9999'' = None"
    by (simp add: DATE_FORMATS_def)
  have a: "date_format (fst (snd (handle_inner sample_reformat x12_parser ?S1 sample_state))) =
             Some ''%y%m%d''"
    using inner_message_sets_date_format [OF s1 i1, of sample_reformat sample_state]
    by (simp split: prod.splits)
  have b: "date_format (fst (snd (handle_inner sample_reformat x12_parser ?S2 sample_state))) =
             Some ''%Y%m%d''"
    using inner_message_sets_date_format [OF s2 i2, of sample_reformat sample_state] u
    by (simp split: prod.splits)
  show ?thesis
    using s1 i1 a s2 i2 u b by blast
qed

text \<open>
  C9. A loop-marker segment whose element 1 is \<open>850\<close>: \<open>handle_loop\<close> returns
  with document type \<open>850\<close> and start-segment code \<open>BEG\<close>, for which the
  record-number index is 3; a following \<open>handle_start\<close> (with the date format set)
  returns and the new document's record number is what element index 3 of the start segment
  gives: the element when the segment has one.
\<close>

theorem purchase_order_starts_at_BEG_with_record_number_3:
  assumes "split_py seg (element_separator p) = Inr elems"
      and "py_index elems 1 = Some ''850''"
  shows "case handle_loop rf p seg st of
           (r, p1, st1) \<Rightarrow>
             r = Inr ()
             \<and> document_type p1 = Some (Val ''850'')
             \<and> record_start_segment p1 = CodeStr ''BEG''
             \<and> record_no_index (record_start_segment p1) = 3
             \<and> (\<forall>seg2 elems2 st2 fmt.
                   split_py seg2 (element_separator p1) = Inr elems2 \<longrightarrow>
                   date_format p1 = Some fmt \<longrightarrow>
                   (case handle_start rf p1 seg2 st2 of
                      (r2, p2, st3) \<Rightarrow>
                        r2 = Inr ()
                        \<and> (\<exists>new_doc. edi_class st3 = Some new_doc
                              \<and> ref_no new_doc = plain_leaf seg2 elems2 3
                              \<and> (\<forall>v. py_index elems2 3 = Some v \<longrightarrow> ref_no new_doc = Val v))))"
proof -
  let ?p1 = "p\<lparr>document_type := Some (Val ''850''), record_start_segment := CodeStr ''BEG''\<rparr>"
  have loop: "handle_loop rf p seg st = (Inr (), ?p1, st)"
    using assms START_SEGMENTS_850 by (rule handle_loop_known)
  have start: "case handle_start rf ?p1 seg2 st2 of
                 (r2, p2, st3) \<Rightarrow>
                   r2 = Inr ()
                   \<and> (\<exists>new_doc. edi_class st3 = Some new_doc
                         \<and> ref_no new_doc = plain_leaf seg2 elems2 3
                         \<and> (\<forall>v. py_index elems2 3 = Some v \<longrightarrow> ref_no new_doc = Val v))"
    if "split_py seg2 (element_separator ?p1) = Inr elems2" "date_format ?p1 = Some fmt"
    for seg2 elems2 st2 fmt
    by (simp add: handle_start_set [OF that] record_no_index_BEG plain_leaf_def)
  have c1: "document_type ?p1 = Some (Val ''850'')" by simp
  have c2: "record_start_segment ?p1 = CodeStr ''BEG''" by simp
  have c3: "record_no_index (record_start_segment ?p1) = 3"
    by (simp add: record_no_index_BEG)
  show ?thesis
    unfolding loop prod.case
    apply (intro conjI allI impI)
        apply (rule refl)
       apply (rule c1)
      apply (rule c2)
     apply (rule c3)
    apply (erule (1) start)
    done
qed

lemma split_BEG:
  "split_py ''BEG*00*NE*PO4501*R1*20250115'' ''*'' =
     Inr [''BEG'', ''00'', ''NE'', ''PO4501'', ''R1'', ''20250115'']"
  by (simp add: split_py_def)

theorem purchase_order_starts_at_BEG_with_record_number_3_witness:
  "split_py ''ST*850*0001'' (element_separator (x12_parser\<lparr>date_format := Some ''%Y%m%d''\<rparr>)) =
     Inr [''ST'', ''850'', ''0001'']
   \<and> py_index [''ST'', ''850'', ''0001''] 1 = Some ''850''
   \<and> (case handle_loop sample_reformat (x12_parser\<lparr>date_format := Some ''%Y%m%d''\<rparr>)
              ''ST*850*0001'' sample_state of
         (r, p1, st1) \<Rightarrow>
           r = Inr ()
           \<and> record_start_segment p1 = CodeStr ''BEG''
           \<and> split_py ''BEG*00*NE*PO4501*R1*20250115'' (element_separator p1) =
                Inr [''BEG'', ''00'', ''NE'', ''PO4501'', ''R1'', ''20250115'']
           \<and> date_format p1 = Some ''%Y%m%d''
           \<and> (case handle_start sample_reformat p1 ''BEG*00*NE*PO4501*R1*20250115'' st1 of
                 (r2, p2, st3) \<Rightarrow>
                   r2 = Inr ()
                   \<and> (\<exists>new_doc. edi_class st3 = Some new_doc \<and> ref_no new_doc = Val ''PO4501'')))"
proof -
  let ?p = "x12_parser\<lparr>date_format := Some ''%Y%m%d''\<rparr>"
  let ?p1 = "?p\<lparr>document_type := Some (Val ''850''), record_start_segment := CodeStr ''BEG''\<rparr>"
  let ?S2 = "''BEG*00*NE*PO4501*R1*20250115''"
  let ?E2 = "[''BEG'', ''00'', ''NE'', ''PO4501'', ''R1'', ''20250115'']"
  have s: "split_py ''ST*850*0001'' (element_separator ?p) = Inr [''ST'', ''850'', ''0001'']"
    by (simp add: x12_parser_separators split_ST)
  have i: "py_index [''ST'', ''850'', ''0001''] 1 = Some ''850''"
    by (simp add: py_index_def)
  have loop: "handle_loop sample_reformat ?p ''ST*850*0001'' sample_state = (Inr (), ?p1, sample_state)"
    using s i START_SEGMENTS_850 by (rule handle_loop_known)
  have s2: "split_py ?S2 (element_separator ?p1) = Inr ?E2"
    by (simp add: x12_parser_separators split_BEG)
  have d: "date_format ?p1 = Some ''%Y%m%d''" by simp
  have v: "py_index ?E2 3 = Some ''PO4501''"
    by (simp add: py_index_def)
  note t = purchase_order_starts_at_BEG_with_record_number_3
             [OF s i, of sample_reformat sample_state, unfolded loop prod.case]
  note start = t [THEN conjunct2, THEN conjunct2, THEN conjunct2, THEN conjunct2,
                   rule_format, OF s2 d, of sample_state]
  then
  have "case handle_start sample_reformat ?p1 ?S2 sample_state of
          (r2, p2, st3) \<Rightarrow>
            r2 = Inr ()
            \<and> (\<exists>new_doc. edi_class st3 = Some new_doc
                  \<and> ref_no new_doc = plain_leaf ?S2 ?E2 3
                  \<and> (\<forall>v. py_index ?E2 3 = Some v \<longrightarrow> ref_no new_doc = Val v))"
    .
  then have "case handle_start sample_reformat ?p1 ?S2 sample_state of
          (r2, p2, st3) \<Rightarrow>
            r2 = Inr () \<and> (\<exists>new_doc. edi_class st3 = Some new_doc \<and> ref_no new_doc = Val ''PO4501'')"
    using v by (auto split: prod.splits)
  then show ?thesis
    using s i s2 d by (simp add: loop)
qed

section \<open>Further properties\<close>

text \<open>
  X1. No call of \<open>EdiBase.__init__\<close> that passes a non-empty element, subelement or
  segment separator returns a parser, whatever the language and the decoder.
\<close>

theorem override_is_never_constructed:
  assumes "truthy element_sep \<or> truthy subelement_sep \<or> truthy segment_sep"
  shows "\<forall>q. EdiBase_init decode lang element_sep subelement_sep segment_sep \<noteq> Inr q"
  using assms by (simp add: override_never_constructs)

theorem override_is_never_constructed_witness:
  "truthy (Some ''|'')
   \<and> (\<forall>q. EdiBase_init Inr ''X12'' None (Some ''|'') None \<noteq> Inr q)
   \<and> (\<forall>q. EdiBase_init Inr ''EDIFACT'' None None (Some ''|'') \<noteq> Inr q)"
proof -
  have t: "truthy (Some ''|'')" by (simp add: truthy_def)
  then have a: "truthy None \<or> truthy (Some ''|'') \<or> truthy None" by simp
  from t have b: "truthy None \<or> truthy None \<or> truthy (Some ''|'')" by simp
  show ?thesis
    using t override_is_never_constructed [OF a, of Inr "''X12''"]
      override_is_never_constructed [OF b, of Inr "''EDIFACT''"]
    by blast
qed

text \<open>
  X2. A request for one element index with the date option, whose text parses under the
  input format, returns the text in the output format and leaves the parser unchanged.
\<close>

theorem parsed_date_is_reformatted:
  assumes "split_py seg (element_separator p) = Inr elems"
      and "py_index elems i = Some el"
      and "rf el fin fout = Inr t"
  shows "universal_element_extract rf p seg (Single (PInt i)) True fin fout =
           (Inr (Leaf (Val t)), p)"
  using assms(3)
  by (simp add: uee_int extract_one_int [OF assms(1,2)] date_convert_parsed)

lemma split_DTM3: "split_py ''DTM*011*20250115'' ''*'' = Inr [''DTM'', ''011'', ''20250115'']"
  by (simp add: split_py_def)

theorem parsed_date_is_reformatted_witness:
  "split_py ''DTM*011*20250115'' (element_separator x12_parser) = Inr [''DTM'', ''011'', ''20250115'']
   \<and> py_index [''DTM'', ''011'', ''20250115''] 2 = Some ''20250115''
   \<and> sample_reformat ''20250115'' ''%Y%m%d'' ''%m-%d-%Y'' = Inr ''01-15-2025''
   \<and> universal_element_extract sample_reformat x12_parser ''DTM*011*20250115''
        (Single (PInt 2)) True ''%Y%m%d'' ''%m-%d-%Y'' =
      (Inr (Leaf (Val ''01-15-2025'')), x12_parser)"
proof -
  have s: "split_py ''DTM*011*20250115'' (element_separator x12_parser) = Inr [''DTM'', ''011'', ''20250115'']"
    by (simp add: x12_parser_separators split_DTM3)
  have i: "py_index [''DTM'', ''011'', ''20250115''] 2 = Some ''20250115''"
    by (simp add: py_index_def)
  have r: "sample_reformat ''20250115'' ''%Y%m%d'' ''%m-%d-%Y'' = Inr ''01-15-2025''"
    by (simp add: sample_reformat_def)
  show ?thesis
    using s i r
      parsed_date_is_reformatted [where rf = sample_reformat and fin = "''%Y%m%d''"
          and fout = "''%m-%d-%Y''", OF s i r]
    by blast
qed

end
